theory Spec2Isabelle
  imports Main "HOL-Library.Word" "HOL-Library.Sublist" "HOL-Library.AList"
begin

section \<open>JavaScript strings\<close>

text \<open>
  A JavaScript string is a sequence of 16-bit code units. Literals of the source are
  written \<open>js ''...''\<close>; all of them are ASCII.
\<close>

type_synonym jschar = "16 word"
type_synonym jsstring = "jschar list"

definition cu :: "char \<Rightarrow> jschar" where
  "cu c = word_of_int (of_char c)"

definition js :: "string \<Rightarrow> jsstring" where
  "js s = map cu s"

text \<open>\<^verbatim>\<open>String.prototype.startsWith\<close>, \<^verbatim>\<open>endsWith\<close> and \<^verbatim>\<open>includes\<close>.\<close>

definition startsWith :: "jsstring \<Rightarrow> jsstring \<Rightarrow> bool" where
  "startsWith s p = prefix p s"

definition endsWith :: "jsstring \<Rightarrow> jsstring \<Rightarrow> bool" where
  "endsWith s p = suffix p s"

definition includes_str :: "jsstring \<Rightarrow> jsstring \<Rightarrow> bool" where
  "includes_str s p = sublist p s"

text \<open>
  ECMAScript \<open>LineTerminator\<close>: LF, CR, LS (U+2028), PS (U+2029). In a regular
  expression \<^verbatim>\<open>.\<close> matches every code unit but these, and with the \<^verbatim>\<open>m\<close> flag
  \<^verbatim>\<open>^\<close> and \<^verbatim>\<open>$\<close> match next to them.
\<close>

definition isLineTerminator :: "jschar \<Rightarrow> bool" where
  "isLineTerminator c = (c = 0x0A \<or> c = 0x0D \<or> c = 0x2028 \<or> c = 0x2029)"

text \<open>
  ECMAScript \<open>WhiteSpace\<close>: TAB, VT, FF, ZWNBSP and the code points of category Zs.
  \<^verbatim>\<open>String.prototype.trim\<close> strips \<open>WhiteSpace\<close> and \<open>LineTerminator\<close> from both ends.
\<close>

definition isWhiteSpace :: "jschar \<Rightarrow> bool" where
  "isWhiteSpace c =
     (c = 0x09 \<or> c = 0x0B \<or> c = 0x0C \<or> c = 0x20 \<or> c = 0xA0 \<or> c = 0x1680 \<or>
      (0x2000 \<le> c \<and> c \<le> 0x200A) \<or> c = 0x202F \<or> c = 0x205F \<or> c = 0x3000 \<or>
      c = 0xFEFF)"

definition isTrimmed :: "jschar \<Rightarrow> bool" where
  "isTrimmed c = (isWhiteSpace c \<or> isLineTerminator c)"

definition trim :: "jsstring \<Rightarrow> jsstring" where
  "trim s = rev (dropWhile isTrimmed (rev (dropWhile isTrimmed s)))"

subsection \<open>\<^verbatim>\<open>encodeURIComponent\<close>\<close>

text \<open>
  ECMA-262 \<open>Encode(string, unescapedSet)\<close> with the unescaped set of
  \<^verbatim>\<open>encodeURIComponent\<close>: ASCII letters, digits and \<^verbatim>\<open>-_.!~*'()\<close>. Every other code
  point is written as the \<^verbatim>\<open>%XX\<close> escapes of its UTF-8 octets; an unpaired surrogate
  throws \<^verbatim>\<open>URIError\<close>, which is \<open>None\<close> here.
\<close>

definition isAsciiAlpha :: "jschar \<Rightarrow> bool" where
  "isAsciiAlpha c = ((0x41 \<le> c \<and> c \<le> 0x5A) \<or> (0x61 \<le> c \<and> c \<le> 0x7A))"

definition isAsciiDigit :: "jschar \<Rightarrow> bool" where
  "isAsciiDigit c = (0x30 \<le> c \<and> c \<le> 0x39)"

definition uriMark :: jsstring where
  "uriMark = js ''-_.!~*'()''"

definition uriUnescaped :: "jschar \<Rightarrow> bool" where
  "uriUnescaped c = (isAsciiAlpha c \<or> isAsciiDigit c \<or> c \<in> set uriMark)"

definition isLeadingSurrogate :: "jschar \<Rightarrow> bool" where
  "isLeadingSurrogate c = (0xD800 \<le> c \<and> c \<le> 0xDBFF)"

definition isTrailingSurrogate :: "jschar \<Rightarrow> bool" where
  "isTrailingSurrogate c = (0xDC00 \<le> c \<and> c \<le> 0xDFFF)"

text \<open>Code points and octets are integers.\<close>

definition surrogatePairToCodePoint :: "jschar \<Rightarrow> jschar \<Rightarrow> int" where
  "surrogatePairToCodePoint lead trail =
     (uint lead - 0xD800) * 0x400 + (uint trail - 0xDC00) + 0x10000"

definition utf8 :: "int \<Rightarrow> int list" where
  "utf8 cp =
     (if cp < 0x80 then [cp]
      else if cp < 0x800 then [0xC0 + cp div 64, 0x80 + cp mod 64]
      else if cp < 0x10000 then
        [0xE0 + cp div 4096, 0x80 + (cp div 64) mod 64, 0x80 + cp mod 64]
      else
        [0xF0 + cp div 262144, 0x80 + (cp div 4096) mod 64, 0x80 + (cp div 64) mod 64,
         0x80 + cp mod 64])"

definition hexDigits :: jsstring where
  "hexDigits = js ''0123456789ABCDEF''"

definition hexDigit :: "int \<Rightarrow> jschar" where
  "hexDigit n = hexDigits ! nat (n mod 16)"

definition percentOctet :: "int \<Rightarrow> jsstring" where
  "percentOctet b = [cu CHR ''%'', hexDigit (b div 16), hexDigit b]"

definition percentOctets :: "int list \<Rightarrow> jsstring" where
  "percentOctets bs = concat (map percentOctet bs)"

fun encode :: "(jschar \<Rightarrow> bool) \<Rightarrow> jsstring \<Rightarrow> jsstring option" where
  "encode unescaped [] = Some []"
| "encode unescaped [c] =
     (if unescaped c then Some [c]
      else if isLeadingSurrogate c \<or> isTrailingSurrogate c then None
      else Some (percentOctets (utf8 (uint c))))"
| "encode unescaped (c # d # s) =
     (if unescaped c then map_option ((#) c) (encode unescaped (d # s))
      else if isTrailingSurrogate c then None
      else if isLeadingSurrogate c then
        (if isTrailingSurrogate d
         then map_option ((@) (percentOctets (utf8 (surrogatePairToCodePoint c d))))
                (encode unescaped s)
         else None)
      else map_option ((@) (percentOctets (utf8 (uint c)))) (encode unescaped (d # s)))"

definition encodeURIComponent :: "jsstring \<Rightarrow> jsstring option" where
  "encodeURIComponent s = encode uriUnescaped s"

text \<open>
  \<^verbatim>\<open>String.prototype.isWellFormed\<close>: no unpaired surrogate. Text decoded from UTF-8
  octets, as a playlist body is, is always well formed.
\<close>

fun isWellFormed :: "jsstring \<Rightarrow> bool" where
  "isWellFormed [] = True"
| "isWellFormed [c] = (\<not> isLeadingSurrogate c \<and> \<not> isTrailingSurrogate c)"
| "isWellFormed (c # d # s) =
     (if isTrailingSurrogate c then False
      else if isLeadingSurrogate c then isTrailingSurrogate d \<and> isWellFormed s
      else isWellFormed (d # s))"

section \<open>URL records\<close>

text \<open>
  A URL record of the WHATWG URL Standard, as a \<^verbatim>\<open>URL\<close> object holds it. The host is
  kept in its serialized form; \<open>None\<close> is the null host, query or fragment.
\<close>

datatype url_path = OpaquePath jsstring | ListPath "jsstring list"

record url =
  url_scheme :: jsstring
  url_username :: jsstring
  url_password :: jsstring
  url_host :: "jsstring option"
  url_port :: "int option"
  url_path :: url_path
  url_query :: "jsstring option"
  url_fragment :: "jsstring option"

function decimal :: "int \<Rightarrow> jsstring" where
  "decimal n =
     (if n < 10 then [hexDigit n] else decimal (n div 10) @ [hexDigit (n mod 10)])"
  by pat_completeness auto
termination
  by (relation "measure nat") auto

declare decimal.simps [simp del]

text \<open>The getters \<^verbatim>\<open>protocol\<close>, \<^verbatim>\<open>host\<close>, \<^verbatim>\<open>pathname\<close> and \<^verbatim>\<open>search\<close>.\<close>

definition protocol :: "url \<Rightarrow> jsstring" where
  "protocol u = url_scheme u @ js '':''"

definition host :: "url \<Rightarrow> jsstring" where
  "host u =
     (case url_host u of
        None \<Rightarrow> []
      | Some h \<Rightarrow> (case url_port u of None \<Rightarrow> h | Some p \<Rightarrow> h @ js '':'' @ decimal p))"

definition pathSerializer :: "url \<Rightarrow> jsstring" where
  "pathSerializer u =
     (case url_path u of
        OpaquePath p \<Rightarrow> p
      | ListPath segs \<Rightarrow> concat (map (\<lambda>seg. js ''/'' @ seg) segs))"

definition pathname :: "url \<Rightarrow> jsstring" where
  "pathname u = pathSerializer u"

definition search :: "url \<Rightarrow> jsstring" where
  "search u =
     (case url_query u of
        None \<Rightarrow> []
      | Some q \<Rightarrow> if q = [] then [] else js ''?'' @ q)"

text \<open>The URL serializer: \<^verbatim>\<open>toString()\<close> and \<^verbatim>\<open>href\<close>.\<close>

definition toString :: "url \<Rightarrow> jsstring" where
  "toString u =
     url_scheme u @ js '':'' @
     (case url_host u of
        Some h \<Rightarrow>
          js ''//'' @
          (if url_username u \<noteq> [] \<or> url_password u \<noteq> []
           then url_username u @
                (if url_password u \<noteq> [] then js '':'' @ url_password u else []) @ js ''@''
           else []) @
          h @
          (case url_port u of None \<Rightarrow> [] | Some p \<Rightarrow> js '':'' @ decimal p)
      | None \<Rightarrow>
          (case url_path u of
             ListPath (seg # seg' # segs) \<Rightarrow> if seg = [] then js ''/.'' else []
           | _ \<Rightarrow> [])) @
     pathSerializer u @
     (case url_query u of None \<Rightarrow> [] | Some q \<Rightarrow> js ''?'' @ q) @
     (case url_fragment u of None \<Rightarrow> [] | Some f \<Rightarrow> js ''#'' @ f)"

text \<open>
  The basic URL parser of the platform, applied to an input and an optional base URL
  record; \<open>None\<close> is failure. The playlist rewrite is stated for every such parser.
\<close>

type_synonym url_parser = "jsstring \<Rightarrow> url option \<Rightarrow> url option"

text \<open>
  \<^verbatim>\<open>new URL(input)\<close> and \<^verbatim>\<open>new URL(input, base)\<close>: the base, a string or a \<^verbatim>\<open>URL\<close>
  object converted to its \<^verbatim>\<open>href\<close>, is parsed first; each failure throws
  \<^verbatim>\<open>TypeError\<close>, which is \<open>None\<close> here.
\<close>

definition URL_new :: "url_parser \<Rightarrow> jsstring \<Rightarrow> jsstring option \<Rightarrow> url option" where
  "URL_new parser input base =
     (case base of
        None \<Rightarrow> parser input None
      | Some b \<Rightarrow>
          (case parser b None of
             None \<Rightarrow> None
           | Some parsedBase \<Rightarrow> parser input (Some parsedBase)))"

section \<open>The playlist rewrite\<close>

text \<open>
  \<^verbatim>\<open>data.replace(/^(?!#)(.+)$/gm, callback)\<close>. A match starts where \<^verbatim>\<open>^\<close> holds (at
  the start of the text or right after a line terminator), at a code unit that is
  neither \<^verbatim>\<open>#\<close> nor a line terminator, and \<^verbatim>\<open>.+\<close> takes every code unit up to the
  next line terminator or the end, where \<^verbatim>\<open>$\<close> holds. The match is replaced by the
  callback's result, taken literally; the search goes on after it; unmatched code
  units are copied. \<open>atStart\<close> says whether \<^verbatim>\<open>^\<close> holds at the current position.
\<close>

function replace_gm :: "(jsstring \<Rightarrow> jsstring) \<Rightarrow> bool \<Rightarrow> jsstring \<Rightarrow> jsstring" where
  "replace_gm callback atStart [] = []"
| "replace_gm callback atStart (c # s) =
     (if atStart \<and> c \<noteq> cu CHR ''#'' \<and> \<not> isLineTerminator c
      then callback (takeWhile (\<lambda>x. \<not> isLineTerminator x) (c # s)) @
           replace_gm callback False (dropWhile (\<lambda>x. \<not> isLineTerminator x) (c # s))
      else c # replace_gm callback (isLineTerminator c) s)"
  by pat_completeness auto
termination
  by (relation "measure (\<lambda>(callback, atStart, s). length s)")
     (auto simp: less_Suc_eq_le length_dropWhile_le)

definition testAbsolute :: "jsstring \<Rightarrow> bool" where
  "testAbsolute line = (startsWith line (js ''http://'') \<or> startsWith line (js ''https://''))"

definition relay :: "jsstring \<Rightarrow> jsstring option" where
  "relay target = map_option ((@) (js ''/proxy?url='')) (encodeURIComponent target)"

text \<open>
  The callback of \<^verbatim>\<open>app.get("/proxy")\<close> (part_000, lines 66 to 85). \<open>newUrl\<close> is the
  body of its \<^verbatim>\<open>try\<close>: \<open>None\<close> is an exception (\<^verbatim>\<open>TypeError\<close> of \<^verbatim>\<open>new URL\<close>,
  \<^verbatim>\<open>URIError\<close> of \<^verbatim>\<open>encodeURIComponent\<close>), and the \<^verbatim>\<open>catch\<close> returns the line as it is.
\<close>

definition newUrl :: "url_parser \<Rightarrow> jsstring \<Rightarrow> jsstring \<Rightarrow> jsstring option" where
  "newUrl parser baseUrl line =
     (if testAbsolute line then relay line
      else if startsWith line (js ''/'') then
        Option.bind (URL_new parser baseUrl None)
          (\<lambda>urlObj. relay (protocol urlObj @ js ''//'' @ host urlObj @ line))
      else
        Option.bind (URL_new parser baseUrl None)
          (\<lambda>urlObj. Option.bind (URL_new parser line (Some (toString urlObj)))
             (\<lambda>resolved. relay (toString resolved))))"

definition rewriteLine :: "url_parser \<Rightarrow> jsstring \<Rightarrow> jsstring \<Rightarrow> jsstring" where
  "rewriteLine parser baseUrl line =
     (if startsWith line (js ''#'') \<or> trim line = [] then line
      else (case newUrl parser baseUrl line of None \<Rightarrow> line | Some u \<Rightarrow> u))"

definition rewritten :: "url_parser \<Rightarrow> jsstring \<Rightarrow> jsstring \<Rightarrow> jsstring" where
  "rewritten parser targetUrl data = replace_gm (rewriteLine parser targetUrl) True data"

text \<open>
  The callback inside \<^verbatim>\<open>userResDecorator\<close> (part_000, lines 235 to 264): here the
  base is parsed first, inside \<^verbatim>\<open>try\<close>, for every kind of line.
\<close>

definition decoratorNewUrl :: "url_parser \<Rightarrow> jsstring \<Rightarrow> jsstring \<Rightarrow> jsstring option" where
  "decoratorNewUrl parser baseUrl line =
     Option.bind (URL_new parser baseUrl None)
       (\<lambda>base.
          if testAbsolute line then relay line
          else if startsWith line (js ''/'') then
            relay (protocol base @ js ''//'' @ host base @ line)
          else
            Option.bind (URL_new parser line (Some (toString base)))
              (\<lambda>resolved. relay (toString resolved)))"

definition decoratorLine :: "url_parser \<Rightarrow> jsstring \<Rightarrow> jsstring \<Rightarrow> jsstring" where
  "decoratorLine parser originalUrl line =
     (if startsWith line (js ''#'') \<or> trim line = [] then line
      else (case decoratorNewUrl parser originalUrl line of None \<Rightarrow> line | Some u \<Rightarrow> u))"

definition playlist :: "url_parser \<Rightarrow> jsstring \<Rightarrow> jsstring \<Rightarrow> jsstring" where
  "playlist parser originalUrl data = replace_gm (decoratorLine parser originalUrl) True data"

subsection \<open>Lines of a text\<close>

text \<open>
  The lines of a text as the regular expression sees them: the runs between line
  terminators, each terminator ending one line (so CR LF encloses an empty line).
  The terminators themselves, in order, are \<open>filter isLineTerminator\<close> of the text.
\<close>

fun splitLines :: "jsstring \<Rightarrow> jsstring list" where
  "splitLines [] = [[]]"
| "splitLines (c # s) =
     (if isLineTerminator c then [] # splitLines s
      else (case splitLines s of [] \<Rightarrow> [[c]] | l # ls \<Rightarrow> (c # l) # ls))"

definition isComment :: "jsstring \<Rightarrow> bool" where
  "isComment line = startsWith line (js ''#'')"

definition isBlank :: "jsstring \<Rightarrow> bool" where
  "isBlank line = (\<forall>c \<in> set line. isTrimmed c)"

text \<open>What \<open>replace_gm\<close> does to one line: only a match is handed to the callback.\<close>

definition onLine :: "(jsstring \<Rightarrow> jsstring) \<Rightarrow> jsstring \<Rightarrow> jsstring" where
  "onLine callback line = (if line \<noteq> [] \<and> \<not> isComment line then callback line else line)"

definition noLineTerminator :: "jsstring \<Rightarrow> bool" where
  "noLineTerminator s = (\<forall>c \<in> set s. \<not> isLineTerminator c)"

text \<open>The code units \<open>relay\<close> can produce after \<^verbatim>\<open>/proxy?url=\<close>.\<close>

definition isEscaped :: "jschar \<Rightarrow> bool" where
  "isEscaped c = (uriUnescaped c \<or> c = cu CHR ''%'')"

text \<open>
  A reference to the relay endpoint: \<^verbatim>\<open>/proxy?url=\<close> followed by such code units
  only, so that no scheme, host or path separator of an upstream shows in it.
\<close>

definition referencesRelay :: "jsstring \<Rightarrow> bool" where
  "referencesRelay line =
     (startsWith line (js ''/proxy?url='') \<and>
      list_all isEscaped (drop (length (js ''/proxy?url='')) line))"

section \<open>The basic URL parser\<close>

text \<open>
  The basic URL parser of the WHATWG URL Standard, without state override, as
  \<^verbatim>\<open>new URL\<close> runs it. It works on code points; each state is a function of the URL
  record built so far and the input from the current code point on, so that
  "decrease pointer by 1" hands the same input to the next state.

  Parts of the standard are left out, and the parser says so with \<open>Unmodelled\<close>
  instead of a result: hosts that need IDNA processing (non-ASCII code points,
  \<^verbatim>\<open>xn--\<close> labels, percent-encoded octets), IPv4 and IPv6 addresses, the
  \<^verbatim>\<open>file\<close> scheme and opaque paths. \<open>Failure\<close> is the standard's failure.

  Code points are written as numbers: 0x23 is \<^verbatim>\<open>#\<close>, 0x25 \<^verbatim>\<open>%\<close>, 0x2B \<^verbatim>\<open>+\<close>,
  0x2D \<^verbatim>\<open>-\<close>, 0x2E the full stop, 0x2F \<^verbatim>\<open>/\<close>, 0x3A \<^verbatim>\<open>:\<close>, 0x3F \<^verbatim>\<open>?\<close>,
  0x40 \<^verbatim>\<open>@\<close>, 0x5B and 0x5D the square brackets, 0x5C the backslash.
\<close>

datatype parse_error = Failure | Unmodelled

text \<open>Conversion to a scalar value string: an unpaired surrogate becomes U+FFFD.\<close>

fun toCodePoints :: "jsstring \<Rightarrow> int list" where
  "toCodePoints [] = []"
| "toCodePoints [c] =
     (if isLeadingSurrogate c \<or> isTrailingSurrogate c then [0xFFFD] else [uint c])"
| "toCodePoints (c # d # s) =
     (if isLeadingSurrogate c \<and> isTrailingSurrogate d
      then surrogatePairToCodePoint c d # toCodePoints s
      else if isLeadingSurrogate c \<or> isTrailingSurrogate c
      then 0xFFFD # toCodePoints (d # s)
      else uint c # toCodePoints (d # s))"

definition isC0ControlOrSpace :: "int \<Rightarrow> bool" where
  "isC0ControlOrSpace c = (c \<le> 0x20)"

definition isAsciiTabOrNewline :: "int \<Rightarrow> bool" where
  "isAsciiTabOrNewline c = (c = 0x09 \<or> c = 0x0A \<or> c = 0x0D)"

definition isAlpha :: "int \<Rightarrow> bool" where
  "isAlpha c = ((0x41 \<le> c \<and> c \<le> 0x5A) \<or> (0x61 \<le> c \<and> c \<le> 0x7A))"

definition isDigit :: "int \<Rightarrow> bool" where
  "isDigit c = (0x30 \<le> c \<and> c \<le> 0x39)"

definition isHexDigit :: "int \<Rightarrow> bool" where
  "isHexDigit c = (isDigit c \<or> (0x41 \<le> c \<and> c \<le> 0x46) \<or> (0x61 \<le> c \<and> c \<le> 0x66))"

definition asciiLowercase :: "int \<Rightarrow> int" where
  "asciiLowercase c = (if 0x41 \<le> c \<and> c \<le> 0x5A then c + 0x20 else c)"

definition ascii :: "int list \<Rightarrow> jsstring" where
  "ascii cs = map word_of_int cs"

subsection \<open>Percent-encode sets\<close>

definition c0ControlSet :: "int \<Rightarrow> bool" where
  "c0ControlSet c = (c < 0x20 \<or> 0x7E < c)"

text \<open>
  Beyond the C0 control percent-encode set: the fragment set adds space, \<^verbatim>\<open>"\<close>,
  \<^verbatim>\<open><\<close>, \<^verbatim>\<open>>\<close> and the backtick; the query set adds space, \<^verbatim>\<open>"\<close>, \<^verbatim>\<open>#\<close>, \<^verbatim>\<open><\<close>
  and \<^verbatim>\<open>>\<close>; the special-query set adds the apostrophe to it; the path set adds
  \<^verbatim>\<open>?\<close>, \<^verbatim>\<open>^\<close>, the backtick, \<^verbatim>\<open>{\<close> and \<^verbatim>\<open>}\<close> to the query set; the userinfo set
  adds \<^verbatim>\<open>/ : ; = @ [ \ ] |\<close> to the path set.
\<close>

definition fragmentSet :: "int \<Rightarrow> bool" where
  "fragmentSet c = (c0ControlSet c \<or> c \<in> {0x20, 0x22, 0x3C, 0x3E, 0x60})"

definition querySet :: "int \<Rightarrow> bool" where
  "querySet c = (c0ControlSet c \<or> c \<in> {0x20, 0x22, 0x23, 0x3C, 0x3E})"

definition specialQuerySet :: "int \<Rightarrow> bool" where
  "specialQuerySet c = (querySet c \<or> c = 0x27)"

definition pathSet :: "int \<Rightarrow> bool" where
  "pathSet c = (querySet c \<or> c \<in> {0x3F, 0x5E, 0x60, 0x7B, 0x7D})"

definition userinfoSet :: "int \<Rightarrow> bool" where
  "userinfoSet c =
     (pathSet c \<or> c \<in> {0x2F, 0x3A, 0x3B, 0x3D, 0x40, 0x5B, 0x5C, 0x5D, 0x7C})"

definition utf8PercentEncode :: "(int \<Rightarrow> bool) \<Rightarrow> int \<Rightarrow> jsstring" where
  "utf8PercentEncode encodeSet c =
     (if encodeSet c then percentOctets (utf8 c) else [word_of_int c])"

definition percentEncodeAll :: "(int \<Rightarrow> bool) \<Rightarrow> int list \<Rightarrow> jsstring" where
  "percentEncodeAll encodeSet cs = concat (map (utf8PercentEncode encodeSet) cs)"


subsection \<open>Hosts\<close>

definition specialSchemes :: "jsstring list" where
  "specialSchemes = map js [''ftp'', ''file'', ''http'', ''https'', ''ws'', ''wss'']"

definition isSpecial :: "jsstring \<Rightarrow> bool" where
  "isSpecial scheme = (scheme \<in> set specialSchemes)"

definition defaultPort :: "jsstring \<Rightarrow> int option" where
  "defaultPort scheme =
     (if scheme = js ''ftp'' then Some 21
      else if scheme = js ''http'' \<or> scheme = js ''ws'' then Some 80
      else if scheme = js ''https'' \<or> scheme = js ''wss'' then Some 443
      else None)"

text \<open>
  Forbidden host code points: NUL, TAB, LF, CR, space, \<^verbatim>\<open># / : < > ? @ [ \ ] ^ |\<close>.
  Forbidden domain code points: these, the C0 controls, \<^verbatim>\<open>%\<close> and DEL.
\<close>

definition forbiddenHostCodePoint :: "int \<Rightarrow> bool" where
  "forbiddenHostCodePoint c =
     (c \<in> {0x00, 0x09, 0x0A, 0x0D, 0x20, 0x23, 0x2F, 0x3A, 0x3C, 0x3E, 0x3F, 0x40,
            0x5B, 0x5C, 0x5D, 0x5E, 0x7C})"

definition forbiddenDomainCodePoint :: "int \<Rightarrow> bool" where
  "forbiddenDomainCodePoint c =
     (forbiddenHostCodePoint c \<or> c \<le> 0x1F \<or> c = 0x25 \<or> c = 0x7F)"

text \<open>The labels of a domain: the runs between full stops.\<close>

fun labels :: "int list \<Rightarrow> int list list" where
  "labels [] = [[]]"
| "labels (c # s) =
     (if c = 0x2E then [] # labels s
      else (case labels s of [] \<Rightarrow> [[c]] | l # ls \<Rightarrow> (c # l) # ls))"

text \<open>
  The "ends in a number" checker: the last label, after dropping one trailing empty
  label, is all digits or a \<^verbatim>\<open>0x\<close> number. Such a host goes to the IPv4 parser.
\<close>

definition isIPv4Number :: "int list \<Rightarrow> bool" where
  "isIPv4Number l =
     (l \<noteq> [] \<and>
      (list_all isDigit l \<or>
       (case l of
          z # x # r \<Rightarrow> z = 0x30 \<and> (x = 0x78 \<or> x = 0x58) \<and> list_all isHexDigit r
        | _ \<Rightarrow> False)))"

definition endsInANumber :: "int list \<Rightarrow> bool" where
  "endsInANumber domain =
     (let parts = labels domain;
          parts' = (if last parts = [] then butlast parts else parts)
      in parts' \<noteq> [] \<and> isIPv4Number (last parts'))"

definition startsWithXn :: "int list \<Rightarrow> bool" where
  "startsWithXn l = (map asciiLowercase (take 4 l) = [0x78, 0x6E, 0x2D, 0x2D])"

text \<open>
  The host parser. For a special scheme the input is a domain: percent-decoded,
  mapped by domain-to-ASCII (for an ASCII domain without \<^verbatim>\<open>xn--\<close> labels that is
  ASCII lowercasing), checked for forbidden code points and for an IPv4 address.
  Otherwise it is an opaque host.
\<close>

definition hostParser :: "int list \<Rightarrow> bool \<Rightarrow> parse_error + jsstring" where
  "hostParser input isOpaque =
     (if input \<noteq> [] \<and> hd input = 0x5B then
        (if last input \<noteq> 0x5D then Inl Failure else Inl Unmodelled)
      else if isOpaque then
        (if list_ex forbiddenHostCodePoint input then Inl Failure
         else Inr (percentEncodeAll c0ControlSet input))
      else if list_ex (\<lambda>c. 0x80 \<le> c \<or> c = 0x25) input then Inl Unmodelled
      else if list_ex startsWithXn (labels input) then Inl Unmodelled
      else if input = [] then Inl Failure
      else if list_ex forbiddenDomainCodePoint input then Inl Failure
      else if endsInANumber input then Inl Unmodelled
      else Inr (ascii (map asciiLowercase input)))"

subsection \<open>The states, from the last to the first\<close>

definition fragmentState :: "url \<Rightarrow> int list \<Rightarrow> url" where
  "fragmentState u input = u\<lparr>url_fragment := Some (percentEncodeAll fragmentSet input)\<rparr>"

definition queryState :: "url \<Rightarrow> int list \<Rightarrow> url" where
  "queryState u input =
     (let buffer = takeWhile (\<lambda>c. c \<noteq> 0x23) input;
          encodeSet = (if isSpecial (url_scheme u) then specialQuerySet else querySet);
          u' = u\<lparr>url_query := Some (percentEncodeAll encodeSet buffer)\<rparr>
      in case dropWhile (\<lambda>c. c \<noteq> 0x23) input of
           [] \<Rightarrow> u'
         | c # rest \<Rightarrow> fragmentState u' rest)"

definition isSingleDot :: "jsstring \<Rightarrow> bool" where
  "isSingleDot buffer = (buffer = js ''.'' \<or> buffer = js ''%2e'' \<or> buffer = js ''%2E'')"

definition isDoubleDot :: "jsstring \<Rightarrow> bool" where
  "isDoubleDot buffer =
     (buffer \<in> set (map js [''..'', ''.%2e'', ''.%2E'', ''%2e.'', ''%2E.'',
                              ''%2e%2e'', ''%2e%2E'', ''%2E%2e'', ''%2E%2E'']))"

definition segments :: "url \<Rightarrow> jsstring list" where
  "segments u = (case url_path u of ListPath segs \<Rightarrow> segs | OpaquePath p \<Rightarrow> [])"

text \<open>Shorten a path (the scheme is never \<^verbatim>\<open>file\<close> here): drop the last segment.\<close>

definition shorten :: "url \<Rightarrow> url" where
  "shorten u = u\<lparr>url_path := ListPath (butlast (segments u))\<rparr>"

definition appendSegment :: "url \<Rightarrow> jsstring \<Rightarrow> url" where
  "appendSegment u seg = u\<lparr>url_path := ListPath (segments u @ [seg])\<rparr>"

text \<open>
  The end of a path segment in the path state; \<open>slash\<close> says that the segment was
  ended by \<^verbatim>\<open>/\<close> (or \<^verbatim>\<open>\\<close> in a special URL).
\<close>

definition endSegment :: "url \<Rightarrow> jsstring \<Rightarrow> bool \<Rightarrow> url" where
  "endSegment u buffer slash =
     (if isDoubleDot buffer then
        (if slash then shorten u else appendSegment (shorten u) [])
      else if isSingleDot buffer then
        (if slash then u else appendSegment u [])
      else appendSegment u buffer)"

fun pathState :: "url \<Rightarrow> jsstring \<Rightarrow> int list \<Rightarrow> url" where
  "pathState u buffer [] = endSegment u buffer False"
| "pathState u buffer (c # rest) =
     (if c = 0x2F \<or> (c = 0x5C \<and> isSpecial (url_scheme u))
      then pathState (endSegment u buffer True) [] rest
      else if c = 0x3F
      then queryState (endSegment u buffer False) rest
      else if c = 0x23
      then fragmentState (endSegment u buffer False) rest
      else pathState u (buffer @ utf8PercentEncode pathSet c) rest)"

definition pathStartState :: "url \<Rightarrow> int list \<Rightarrow> url" where
  "pathStartState u input =
     (if isSpecial (url_scheme u) then
        (case input of
           [] \<Rightarrow> pathState u [] []
         | c # rest \<Rightarrow> if c = 0x2F \<or> c = 0x5C then pathState u [] rest
                       else pathState u [] input)
      else
        (case input of
           [] \<Rightarrow> u
         | c # rest \<Rightarrow>
             if c = 0x3F then queryState u rest
             else if c = 0x23 then fragmentState u rest
             else if c = 0x2F then pathState u [] rest
             else pathState u [] input))"

definition isAuthorityEnd :: "url \<Rightarrow> int \<Rightarrow> bool" where
  "isAuthorityEnd u c =
     (c = 0x2F \<or> c = 0x3F \<or> c = 0x23 \<or>
      (c = 0x5C \<and> isSpecial (url_scheme u)))"

fun digitsValue :: "int \<Rightarrow> int list \<Rightarrow> int" where
  "digitsValue acc [] = acc"
| "digitsValue acc (d # ds) = digitsValue (10 * acc + (d - 0x30)) ds"

definition portState :: "url \<Rightarrow> int list \<Rightarrow> parse_error + url" where
  "portState u input =
     (let buffer = takeWhile isDigit input; rest = dropWhile isDigit input
      in if rest \<noteq> [] \<and> \<not> isAuthorityEnd u (hd rest) then Inl Failure
         else if buffer = [] then Inr (pathStartState u rest)
         else if 65535 < digitsValue 0 buffer then Inl Failure
         else Inr (pathStartState
                (u\<lparr>url_port := (if defaultPort (url_scheme u) = Some (digitsValue 0 buffer)
                                  then None else Some (digitsValue 0 buffer))\<rparr>) rest))"

fun hostState :: "url \<Rightarrow> bool \<Rightarrow> int list \<Rightarrow> int list \<Rightarrow> parse_error + url" where
  "hostState u insideBrackets buffer [] =
     (if buffer = [] \<and> isSpecial (url_scheme u) then Inl Failure
      else (case hostParser buffer (\<not> isSpecial (url_scheme u)) of
              Inl e \<Rightarrow> Inl e
            | Inr h \<Rightarrow> Inr (pathStartState (u\<lparr>url_host := Some h\<rparr>) [])))"
| "hostState u insideBrackets buffer (c # rest) =
     (if c = 0x3A \<and> \<not> insideBrackets then
        (if buffer = [] then Inl Failure
         else (case hostParser buffer (\<not> isSpecial (url_scheme u)) of
                 Inl e \<Rightarrow> Inl e
               | Inr h \<Rightarrow> portState (u\<lparr>url_host := Some h\<rparr>) rest))
      else if c = 0x2F \<or> c = 0x3F \<or> c = 0x23 \<or>
              (c = 0x5C \<and> isSpecial (url_scheme u)) then
        (if buffer = [] \<and> isSpecial (url_scheme u) then Inl Failure
         else (case hostParser buffer (\<not> isSpecial (url_scheme u)) of
                 Inl e \<Rightarrow> Inl e
               | Inr h \<Rightarrow> Inr (pathStartState (u\<lparr>url_host := Some h\<rparr>) (c # rest))))
      else hostState u
             (if c = 0x5B then True else if c = 0x5D then False else insideBrackets)
             (buffer @ [c]) rest)"

text \<open>
  The credentials in front of an \<^verbatim>\<open>@\<close>: up to the first \<^verbatim>\<open>:\<close> they are the
  username, after it the password, percent-encoded with the userinfo set.
\<close>

fun credentials :: "url \<Rightarrow> bool \<Rightarrow> int list \<Rightarrow> url \<times> bool" where
  "credentials u passwordTokenSeen [] = (u, passwordTokenSeen)"
| "credentials u passwordTokenSeen (c # buffer) =
     (if c = 0x3A \<and> \<not> passwordTokenSeen then credentials u True buffer
      else if passwordTokenSeen
      then credentials (u\<lparr>url_password := url_password u @ utf8PercentEncode userinfoSet c\<rparr>)
             passwordTokenSeen buffer
      else credentials (u\<lparr>url_username := url_username u @ utf8PercentEncode userinfoSet c\<rparr>)
             passwordTokenSeen buffer)"

fun authorityState :: "url \<Rightarrow> bool \<Rightarrow> bool \<Rightarrow> int list \<Rightarrow> int list \<Rightarrow> parse_error + url" where
  "authorityState u atSignSeen passwordTokenSeen buffer [] =
     (if atSignSeen \<and> buffer = [] then Inl Failure else hostState u False [] buffer)"
| "authorityState u atSignSeen passwordTokenSeen buffer (c # rest) =
     (if c = 0x40 then
        (case credentials u passwordTokenSeen
                (if atSignSeen then [0x25, 0x34, 0x30] @ buffer else buffer) of
           (u', seen) \<Rightarrow> authorityState u' True seen [] rest)
      else if c = 0x2F \<or> c = 0x3F \<or> c = 0x23 \<or>
              (c = 0x5C \<and> isSpecial (url_scheme u)) then
        (if atSignSeen \<and> buffer = [] then Inl Failure
         else hostState u False [] (buffer @ c # rest))
      else authorityState u atSignSeen passwordTokenSeen (buffer @ [c]) rest)"

definition specialAuthorityIgnoreSlashesState :: "url \<Rightarrow> int list \<Rightarrow> parse_error + url" where
  "specialAuthorityIgnoreSlashesState u input =
     authorityState u False False []
       (dropWhile (\<lambda>c. c = 0x2F \<or> c = 0x5C) input)"

definition specialAuthoritySlashesState :: "url \<Rightarrow> int list \<Rightarrow> parse_error + url" where
  "specialAuthoritySlashesState u input =
     (case input of
        c # d # rest \<Rightarrow>
          if c = 0x2F \<and> d = 0x2F
          then specialAuthorityIgnoreSlashesState u rest
          else specialAuthorityIgnoreSlashesState u input
      | _ \<Rightarrow> specialAuthorityIgnoreSlashesState u input)"

definition fromBase :: "url \<Rightarrow> url \<Rightarrow> url" where
  "fromBase u base =
     u\<lparr>url_username := url_username base, url_password := url_password base,
       url_host := url_host base, url_port := url_port base\<rparr>"

definition relativeSlashState :: "url \<Rightarrow> url \<Rightarrow> int list \<Rightarrow> parse_error + url" where
  "relativeSlashState u base input =
     (case input of
        [] \<Rightarrow> Inr (pathState (fromBase u base) [] [])
      | c # rest \<Rightarrow>
          if (c = 0x2F \<or> c = 0x5C) \<and> isSpecial (url_scheme u)
          then specialAuthorityIgnoreSlashesState u rest
          else if c = 0x2F then authorityState u False False [] rest
          else Inr (pathState (fromBase u base) [] input))"

definition relativeState :: "url \<Rightarrow> url \<Rightarrow> int list \<Rightarrow> parse_error + url" where
  "relativeState u0 base input =
     (let u = u0\<lparr>url_scheme := url_scheme base\<rparr>;
          u' = (fromBase u base)\<lparr>url_path := url_path base, url_query := url_query base\<rparr>
      in case input of
           [] \<Rightarrow> Inr u'
         | c # rest \<Rightarrow>
             if c = 0x2F then relativeSlashState u base rest
             else if c = 0x5C \<and> isSpecial (url_scheme u) then relativeSlashState u base rest
             else if c = 0x3F then Inr (queryState u' rest)
             else if c = 0x23 then Inr (fragmentState u' rest)
             else Inr (pathState (shorten (u'\<lparr>url_query := None\<rparr>)) [] input))"

definition pathOrAuthorityState :: "url \<Rightarrow> int list \<Rightarrow> parse_error + url" where
  "pathOrAuthorityState u input =
     (case input of
        [] \<Rightarrow> Inr (pathState u [] [])
      | c # rest \<Rightarrow>
          if c = 0x2F then authorityState u False False [] rest
          else Inr (pathState u [] input))"

definition specialRelativeOrAuthorityState :: "url \<Rightarrow> url \<Rightarrow> int list \<Rightarrow> parse_error + url" where
  "specialRelativeOrAuthorityState u base input =
     (case input of
        c # d # rest \<Rightarrow>
          if c = 0x2F \<and> d = 0x2F
          then specialAuthorityIgnoreSlashesState u rest
          else relativeState u base input
      | _ \<Rightarrow> relativeState u base input)"

definition isOpaque :: "url \<Rightarrow> bool" where
  "isOpaque u = (case url_path u of OpaquePath p \<Rightarrow> True | ListPath segs \<Rightarrow> False)"

definition noSchemeState :: "url \<Rightarrow> url option \<Rightarrow> int list \<Rightarrow> parse_error + url" where
  "noSchemeState u base input =
     (case base of
        None \<Rightarrow> Inl Failure
      | Some b \<Rightarrow>
          if isOpaque b then
            (case input of
               [] \<Rightarrow> Inl Failure
             | c # rest \<Rightarrow>
                 if c = 0x23
                 then Inr (fragmentState
                        (u\<lparr>url_scheme := url_scheme b, url_path := url_path b,
                           url_query := url_query b\<rparr>) rest)
                 else Inl Failure)
          else if url_scheme b = js ''file'' then Inl Unmodelled
          else relativeState u b input)"

definition isSchemeChar :: "int \<Rightarrow> bool" where
  "isSchemeChar c = (isAlpha c \<or> isDigit c \<or> c = 0x2B \<or> c = 0x2D \<or>
                     c = 0x2E)"

definition emptyURL :: url where
  "emptyURL = \<lparr>url_scheme = [], url_username = [], url_password = [], url_host = None,
               url_port = None, url_path = ListPath [], url_query = None,
               url_fragment = None\<rparr>"

text \<open>The scheme start state and the scheme state.\<close>

definition schemeState :: "url option \<Rightarrow> int list \<Rightarrow> parse_error + url" where
  "schemeState base input =
     (let buffer = takeWhile isSchemeChar input; rest = dropWhile isSchemeChar input
      in if input \<noteq> [] \<and> isAlpha (hd input) \<and> rest \<noteq> [] \<and> hd rest = 0x3A then
           (let u = emptyURL\<lparr>url_scheme := ascii (map asciiLowercase buffer)\<rparr>;
                remaining = tl rest
            in if url_scheme u = js ''file'' then Inl Unmodelled
               else if isSpecial (url_scheme u) then
                 (case base of
                    None \<Rightarrow> specialAuthoritySlashesState u remaining
                  | Some b \<Rightarrow>
                      if url_scheme b = url_scheme u
                      then specialRelativeOrAuthorityState u b remaining
                      else specialAuthoritySlashesState u remaining)
               else if remaining \<noteq> [] \<and> hd remaining = 0x2F
               then pathOrAuthorityState u (tl remaining)
               else Inl Unmodelled)
         else noSchemeState emptyURL base input)"

definition basicURLParser :: "jsstring \<Rightarrow> url option \<Rightarrow> parse_error + url" where
  "basicURLParser input base =
     schemeState base
       (filter (\<lambda>c. \<not> isAsciiTabOrNewline c)
          (rev (dropWhile isC0ControlOrSpace
             (rev (dropWhile isC0ControlOrSpace (toCodePoints input))))))"

definition whatwg :: url_parser where
  "whatwg input base =
     (case basicURLParser input base of Inl e \<Rightarrow> None | Inr u \<Rightarrow> Some u)"

text \<open>
  The parser handed to the routes in the examples below. Where the model has no
  answer it reports failure; the examples stay within the modelled part.
\<close>

definition isModelled :: "jsstring \<Rightarrow> url option \<Rightarrow> bool" where
  "isModelled input base = (basicURLParser input base \<noteq> Inl Unmodelled)"

section \<open>The \<^verbatim>\<open>/proxy\<close> route\<close>

text \<open>
  An object of headers is an association list of names and values, in the order in
  which the names were first set; \<open>AList.update\<close> is the assignment
  \<^verbatim>\<open>headers[name] = value\<close> and \<open>map_of\<close> the lookup. A \<^verbatim>\<open>Buffer\<close> is a list of octets.
  Of the request only \<^verbatim>\<open>req.query.url\<close> and \<^verbatim>\<open>req.headers.cookie\<close> are read, each a
  string or \<^verbatim>\<open>undefined\<close>.
\<close>

type_synonym header_map = "(string \<times> jsstring) list"
type_synonym octets = "8 word list"

record request =
  query_url :: "jsstring option"
  headers_cookie :: "jsstring option"

datatype client = Http | Https

text \<open>
  What the handler does before any response arrives: \<^verbatim>\<open>res.status(n).send(text)\<close>, or
  the request that \<^verbatim>\<open>client.get(targetUrl, options, ...)\<close> sends, with
  \<^verbatim>\<open>options.method\<close> GET and the given \<^verbatim>\<open>options.headers\<close>. The client is \<^verbatim>\<open>https\<close>
  for the protocol \<^verbatim>\<open>https:\<close> and \<^verbatim>\<open>http\<close> for every other; \<^verbatim>\<open>http.get\<close> throws at
  once (\<^verbatim>\<open>ERR_INVALID_PROTOCOL\<close>) for a protocol that is not \<^verbatim>\<open>http:\<close>, inside the
  \<^verbatim>\<open>try\<close>, so that the \<^verbatim>\<open>catch\<close> answers and nothing is sent.
\<close>

datatype proxy_setup = Send nat jsstring | Get client jsstring header_map

definition userAgent :: jsstring where
  "userAgent = js (''Mozilla/5.0 (Windows NT 10.0; Win64; x64) AppleWebKit/537.36 '' @
                   ''(KHTML, like Gecko) Chrome/124.0.0.0 Safari/537.36'')"

text \<open>\<^verbatim>\<open>app.get("/proxy")\<close> of src/proxy.js (lines 15 to 56) and of part_000 (lines 26 to 99).\<close>

definition proxy :: "url_parser \<Rightarrow> request \<Rightarrow> proxy_setup" where
  "proxy parser req =
     (case query_url req of
        None \<Rightarrow> Send 400 (js ''Missing url param'')
      | Some targetUrl \<Rightarrow>
          if targetUrl = [] then Send 400 (js ''Missing url param'')
          else
            (case URL_new parser targetUrl None of
               None \<Rightarrow> Send 500 (js ''Proxy setup failed'')
             | Some urlObj \<Rightarrow>
                 (let client = (if protocol urlObj = js ''https:'' then Https else Http);
                      headers = [(''Host'', host urlObj), (''User-Agent'', userAgent),
                                 (''Accept'', js ''*/*''),
                                 (''Connection'', js ''keep-alive'')];
                      headers' =
                        (if includes_str targetUrl (js ''edgenextcdn.net'')
                         then AList.update ''Origin'' (js ''https://www.shahid.net'')
                                (AList.update ''Referer'' (js ''https://www.shahid.net/'')
                                   headers)
                         else headers);
                      headers'' =
                        (case headers_cookie req of
                           None \<Rightarrow> headers'
                         | Some cookie \<Rightarrow>
                             if cookie = [] then headers'
                             else AList.update ''Cookie'' cookie headers')
                  in if protocol urlObj = js ''https:'' \<or> protocol urlObj = js ''http:''
                     then Get client targetUrl headers''
                     else Send 500 (js ''Proxy setup failed''))))"

text \<open>
  The response of the upstream, and what the callback of \<^verbatim>\<open>client.get\<close> makes of it:
  the status and the headers it sets on \<^verbatim>\<open>res\<close>, and the body, either piped chunk by
  chunk or ended with one string.
\<close>

record upstream_response =
  statusCode :: nat
  headers :: header_map
  chunks :: "octets list"

datatype body = Piped "octets list" | Ended jsstring

record response =
  res_status :: nat
  res_headers :: header_map
  res_body :: body

text \<open>
  The callback in part_000 (lines 54 to 91). \<open>decode\<close> is the string conversion of a
  \<^verbatim>\<open>Buffer\<close> in \<^verbatim>\<open>data += chunk\<close>, the UTF-8 decoder of the platform.
\<close>

definition onResponse ::
  "url_parser \<Rightarrow> (octets \<Rightarrow> jsstring) \<Rightarrow> jsstring \<Rightarrow> upstream_response \<Rightarrow> response" where
  "onResponse parser decode targetUrl proxyRes =
     (if endsWith targetUrl (js ''.m3u8'')
      then \<lparr>res_status = statusCode proxyRes,
            res_headers = AList.update ''content-type''
              (js ''application/vnd.apple.mpegurl'') (headers proxyRes),
            res_body = Ended (rewritten parser targetUrl
                                (concat (map decode (chunks proxyRes))))\<rparr>
      else \<lparr>res_status = statusCode proxyRes, res_headers = headers proxyRes,
            res_body = Piped (chunks proxyRes)\<rparr>)"

text \<open>The callback in src/proxy.js (lines 43 to 48): every body is piped.\<close>

definition onResponsePlain :: "upstream_response \<Rightarrow> response" where
  "onResponsePlain proxyRes =
     \<lparr>res_status = statusCode proxyRes, res_headers = headers proxyRes,
      res_body = Piped (chunks proxyRes)\<rparr>"

text \<open>
  \<^verbatim>\<open>userResDecorator\<close> (part_000, lines 226 to 273): the content type it sets, if any,
  and the body it returns, the rewritten playlist or the buffer as it came.
\<close>

datatype decorated = Playlist jsstring | Data octets

definition userResDecorator ::
  "url_parser \<Rightarrow> (octets \<Rightarrow> jsstring) \<Rightarrow> jsstring option \<Rightarrow> octets \<Rightarrow>
   jsstring option \<times> decorated" where
  "userResDecorator parser decode originalUrl proxyResData =
     (case originalUrl of
        None \<Rightarrow> (None, Data proxyResData)
      | Some url \<Rightarrow>
          if url \<noteq> [] \<and> endsWith url (js ''.m3u8'')
          then (Some (js ''application/vnd.apple.mpegurl''),
                Playlist (playlist parser url (decode proxyResData)))
          else (None, Data proxyResData))"

text \<open>
  The host function and \<^verbatim>\<open>proxyReqPathResolver\<close> handed to \<^verbatim>\<open>express-http-proxy\<close>
  (part_000, lines 190 to 204); \<open>None\<close> is the \<^verbatim>\<open>TypeError\<close> of \<^verbatim>\<open>new URL\<close>.
\<close>

definition proxyHost :: "url_parser \<Rightarrow> jsstring \<Rightarrow> jsstring" where
  "proxyHost parser targetUrl =
     (case URL_new parser targetUrl None of
        Some url \<Rightarrow> protocol url @ js ''//'' @ host url
      | None \<Rightarrow> js ''https://tvpass.org'')"

definition proxyReqPathResolver :: "url_parser \<Rightarrow> jsstring \<Rightarrow> jsstring option" where
  "proxyReqPathResolver parser targetUrl =
     map_option (\<lambda>url. pathname url @ search url) (URL_new parser targetUrl None)"

text \<open>
  The headers both scripts built on \<^verbatim>\<open>express-http-proxy\<close> set for the CDN, in the
  order of the source (part_000, lines 213 to 219 and 384 to 390).
\<close>

definition cdnHeaders :: "request \<Rightarrow> header_map \<Rightarrow> header_map" where
  "cdnHeaders srcReq hs =
     (let hs' = AList.update ''Origin'' (js ''https://www.shahid.net'')
                  (AList.update ''User-Agent'' userAgent
                     (AList.update ''Referer'' (js ''https://www.shahid.net/'') hs))
      in case headers_cookie srcReq of
           None \<Rightarrow> hs'
         | Some cookie \<Rightarrow> if cookie = [] then hs' else AList.update ''Cookie'' cookie hs')"

text \<open>
  \<^verbatim>\<open>proxyReqOptDecorator\<close> of the second script of part_000 (lines 205 to 223), which
  parses the URL and so can throw (\<open>None\<close>), and of the third (lines 381 to 393).
  \<open>hs\<close> is \<^verbatim>\<open>proxyReqOpts.headers\<close> as the library hands it over.
\<close>

definition proxyReqOptDecorator ::
  "url_parser \<Rightarrow> request \<Rightarrow> header_map \<Rightarrow> header_map option" where
  "proxyReqOptDecorator parser srcReq hs =
     (case query_url srcReq of
        None \<Rightarrow> Some hs
      | Some streamUrl \<Rightarrow>
          if streamUrl = [] then Some hs
          else
            (case URL_new parser streamUrl None of
               None \<Rightarrow> None
             | Some urlObj \<Rightarrow>
                 (let hs' = AList.update ''Host'' (host urlObj) hs
                  in if includes_str streamUrl (js ''edgenextcdn.net'')
                     then Some (cdnHeaders srcReq hs')
                     else Some hs')))"

definition proxyReqOptDecoratorPlain ::
  "jsstring \<Rightarrow> request \<Rightarrow> header_map \<Rightarrow> header_map" where
  "proxyReqOptDecoratorPlain targetUrl srcReq hs =
     (if includes_str targetUrl (js ''edgenextcdn.net'') then cdnHeaders srcReq hs else hs)"

text \<open>
  \<^verbatim>\<open>app.use("/proxy")\<close> of the second and of the third script of part_000 (lines 186
  to 281 and 363 to 400), up to the request sent upstream. The middleware of
  \<^verbatim>\<open>express-http-proxy\<close> calls \<^verbatim>\<open>proxyReqOptDecorator\<close> and \<^verbatim>\<open>proxyReqPathResolver\<close>
  before it sends the request to the host; an exception of either goes to
  \<^verbatim>\<open>proxyErrorHandler\<close> of the script (lines 275 to 278 and 395 to 398), and no
  request is sent. The outcome is the answer of the script, or the request forwarded
  to a host with a path and headers.
\<close>

datatype proxied = Answered nat jsstring | Forwarded jsstring jsstring header_map

definition proxyErrorHandler :: proxied where
  "proxyErrorHandler = Answered 500 (js ''Stream proxy failed'')"

definition proxyUse :: "url_parser \<Rightarrow> request \<Rightarrow> header_map \<Rightarrow> proxied" where
  "proxyUse parser req hs =
     (case query_url req of
        None \<Rightarrow> Answered 400 (js ''Missing url param'')
      | Some targetUrl \<Rightarrow>
          if targetUrl = [] then Answered 400 (js ''Missing url param'')
          else
            (case proxyReqOptDecorator parser req hs of
               None \<Rightarrow> proxyErrorHandler
             | Some hs' \<Rightarrow>
                 (case proxyReqPathResolver parser targetUrl of
                    None \<Rightarrow> proxyErrorHandler
                  | Some path \<Rightarrow> Forwarded (proxyHost parser targetUrl) path hs')))"

definition proxyUsePlain :: "url_parser \<Rightarrow> request \<Rightarrow> header_map \<Rightarrow> proxied" where
  "proxyUsePlain parser req hs =
     (case query_url req of
        None \<Rightarrow> Answered 400 (js ''Missing url param'')
      | Some targetUrl \<Rightarrow>
          if targetUrl = [] then Answered 400 (js ''Missing url param'')
          else
            (case proxyReqPathResolver parser targetUrl of
               None \<Rightarrow> proxyErrorHandler
             | Some path \<Rightarrow>
                 Forwarded (proxyHost parser targetUrl) path
                   (proxyReqOptDecoratorPlain targetUrl req hs)))"

text \<open>
  \<^verbatim>\<open>Buffer.prototype.toString('latin1')\<close>, which agrees with the UTF-8 decoder on
  ASCII octets; it stands for the decoder in the examples.
\<close>

definition latin1 :: "octets \<Rightarrow> jsstring" where
  "latin1 buffer = map ucast buffer"

section \<open>The \<^verbatim>\<open>/epg\<close> route\<close>

text \<open>
  The values \<^verbatim>\<open>xml2js\<close> puts into the arrays of a parsed element: strings, or objects
  for child elements with attributes. A field of a programme is an array of them, or
  \<^verbatim>\<open>undefined\<close> (\<open>None\<close>).
\<close>

datatype jsval = Undefined | Null | Str jsstring | Obj

record programme =
  channel :: "jsval list option"
  start :: "jsval list option"
  stop :: "jsval list option"
  title :: "jsval list option"
  sub_title :: "jsval list option"
  desc :: "jsval list option"

record programme_json =
  json_start :: jsval
  json_stop :: jsval
  json_title :: jsval
  json_subTitle :: jsval
  json_desc :: jsval

record epg_json =
  json_channel :: jsstring
  json_programmes :: "programme_json list"

definition truthy :: "jsval \<Rightarrow> bool" where
  "truthy v = (case v of Undefined \<Rightarrow> False | Null \<Rightarrow> False | Str s \<Rightarrow> s \<noteq> [] | Obj \<Rightarrow> True)"

text \<open>\<^verbatim>\<open>p.f[0]\<close>, which throws when \<^verbatim>\<open>p.f\<close> is undefined, and \<^verbatim>\<open>p.f?.[0] || null\<close>.\<close>

definition first :: "jsval list option \<Rightarrow> jsval option" where
  "first field =
     (case field of None \<Rightarrow> None | Some [] \<Rightarrow> Some Undefined | Some (v # vs) \<Rightarrow> Some v)"

definition firstOrNull :: "jsval list option \<Rightarrow> jsval" where
  "firstOrNull field =
     (case field of
        None \<Rightarrow> Null
      | Some [] \<Rightarrow> Null
      | Some (v # vs) \<Rightarrow> if truthy v then v else Null)"

text \<open>The filter \<^verbatim>\<open>p.channel && p.channel[0] === channelFilter\<close>.\<close>

definition matchesChannel :: "jsstring \<Rightarrow> programme \<Rightarrow> bool" where
  "matchesChannel channelFilter p =
     (case channel p of
        Some (Str c # vs) \<Rightarrow> c = channelFilter
      | _ \<Rightarrow> False)"

text \<open>
  The entry of the JSON answer in src/proxy.js (lines 90 to 96) and in the first and
  third script of part_000, and the one in the second script (lines 311 to 317).
\<close>

definition programmeJson :: "programme \<Rightarrow> programme_json option" where
  "programmeJson p =
     (case first (start p) of
        None \<Rightarrow> None
      | Some a \<Rightarrow>
          (case first (stop p) of
             None \<Rightarrow> None
           | Some b \<Rightarrow>
               Some \<lparr>json_start = a, json_stop = b, json_title = firstOrNull (title p),
                     json_subTitle = firstOrNull (sub_title p),
                     json_desc = firstOrNull (desc p)\<rparr>))"

definition programmeJsonSafe :: "programme \<Rightarrow> programme_json option" where
  "programmeJsonSafe p =
     Some \<lparr>json_start = firstOrNull (start p), json_stop = firstOrNull (stop p),
           json_title = firstOrNull (title p), json_subTitle = firstOrNull (sub_title p),
           json_desc = firstOrNull (desc p)\<rparr>"

text \<open>
  What the fetch and the parse of the upstream document give: a rejection of
  \<^verbatim>\<open>axios.get\<close> or \<^verbatim>\<open>parseStringPromise\<close>, or the value of \<^verbatim>\<open>parsed.tv\<close>. That is
  \<^verbatim>\<open>undefined\<close> when the root is another element (\<open>NoTv\<close>); the empty string, which
  is what \<^verbatim>\<open>xml2js\<close> makes of an element without attributes and children such as
  \<^verbatim>\<open><tv></tv>\<close> (\<open>EmptyTv\<close>); or an object whose \<^verbatim>\<open>programme\<close> is an array or
  undefined (\<open>Tv\<close>). The first two are falsy.
\<close>

datatype tv = NoTv | EmptyTv | Tv "programme list option"

datatype epg_upstream = Rejected | Parsed tv

datatype epg_body = Text jsstring | JsonBody epg_json | XmlOf "programme list"

record epg_response =
  epg_status :: nat
  epg_contentType :: "jsstring option"
  epg_body :: epg_body

definition sendText :: "nat \<Rightarrow> jsstring \<Rightarrow> epg_response" where
  "sendText code text = \<lparr>epg_status = code, epg_contentType = None, epg_body = Text text\<rparr>"

text \<open>
  \<^verbatim>\<open>app.get("/epg")\<close>, the same in all four scripts but for the entry of the JSON
  answer. The upstream is asked only after the check of the channel.
\<close>

definition epg ::
  "(programme \<Rightarrow> programme_json option) \<Rightarrow> jsstring option \<Rightarrow> jsstring option \<Rightarrow>
   epg_upstream \<Rightarrow> epg_response" where
  "epg entry query_channel query_format upstream =
     (let format = (case query_format of
                      None \<Rightarrow> js ''xml''
                    | Some f \<Rightarrow> if f = [] then js ''xml'' else f)
      in case query_channel of
           None \<Rightarrow> sendText 400 (js ''Missing 'channel' query param'')
         | Some channelFilter \<Rightarrow>
             if channelFilter = [] then sendText 400 (js ''Missing 'channel' query param'')
             else
               (case upstream of
                  Rejected \<Rightarrow> sendText 500 (js ''Failed to fetch or parse EPG'')
                | Parsed NoTv \<Rightarrow> sendText 500 (js ''Invalid EPG format'')
                | Parsed EmptyTv \<Rightarrow> sendText 500 (js ''Invalid EPG format'')
                | Parsed (Tv programmes) \<Rightarrow>
                    (let allProgrammes = (case programmes of None \<Rightarrow> [] | Some ps \<Rightarrow> ps);
                         filteredProgrammes = filter (matchesChannel channelFilter) allProgrammes
                     in if format = js ''json'' then
                          (case those (map entry filteredProgrammes) of
                             None \<Rightarrow> sendText 500 (js ''Failed to fetch or parse EPG'')
                           | Some entries \<Rightarrow>
                               \<lparr>epg_status = 200,
                                epg_contentType = Some (js ''application/json''),
                                epg_body = JsonBody \<lparr>json_channel = channelFilter,
                                                     json_programmes = entries\<rparr>\<rparr>)
                        else
                          \<lparr>epg_status = 200,
                           epg_contentType = Some (js ''application/xml''),
                           epg_body = XmlOf filteredProgrammes\<rparr>)))"

section \<open>Examples\<close>

text \<open>
  The original URL of the specification's examples with its URL record, the record of
  \<^verbatim>\<open>seg1.ts\<close> resolved against it, and a playlist with a line of each kind: a
  directive, the empty line between CR and LF, a directive, an absolute URL, a
  root-relative and a relative reference.
\<close>

definition masterUrl :: jsstring where
  "masterUrl = js ''https://h/a/b/master.m3u8''"

definition masterRecord :: url where
  "masterRecord =
     \<lparr>url_scheme = js ''https'', url_username = [], url_password = [],
      url_host = Some (js ''h''), url_port = None,
      url_path = ListPath [js ''a'', js ''b'', js ''master.m3u8''],
      url_query = None, url_fragment = None\<rparr>"

definition segmentRecord :: url where
  "segmentRecord =
     \<lparr>url_scheme = js ''https'', url_username = [], url_password = [],
      url_host = Some (js ''h''), url_port = None,
      url_path = ListPath [js ''a'', js ''b'', js ''seg1.ts''],
      url_query = None, url_fragment = None\<rparr>"

definition examplePlaylist :: jsstring where
  "examplePlaylist =
     js ''#EXTM3U'' @ [0x0D, 0x0A] @ js ''#EXTINF:4,'' @ [0x0A] @
     js ''https://c.io/s 1.ts'' @ [0x0A] @ js ''/live/seg1.ts'' @ [0x0A] @ js ''seg1.ts''"

section \<open>Properties of the string functions\<close>

lemma splitLines_nonempty: "splitLines s \<noteq> []"
  by (induction s) (auto split: list.splits)

lemma splitLines_Cons [simp]:
  "splitLines (c # s) =
     (if isLineTerminator c then [] # splitLines s
      else (c # hd (splitLines s)) # tl (splitLines s))"
  using splitLines_nonempty [of s] by (cases "splitLines s") auto

declare splitLines.simps(2) [simp del]

lemma hexDigits_code [code]:
  "hexDigits = [48, 49, 50, 51, 52, 53, 54, 55, 56, 57, 65, 66, 67, 68, 69, 70]"
  by (simp add: hexDigits_def js_def cu_def)

lemma uriMark_code [code]: "uriMark = [45, 95, 46, 33, 126, 42, 39, 40, 41]"
  by (simp add: uriMark_def js_def cu_def)

lemma specialSchemes_code [code]:
  "specialSchemes =
     [[102, 116, 112], [102, 105, 108, 101], [104, 116, 116, 112],
      [104, 116, 116, 112, 115], [119, 115], [119, 115, 115]]"
  by (simp add: specialSchemes_def js_def cu_def)

lemma hexDigit_unescaped: "uriUnescaped (hexDigit n)"
proof -
  have "nat (n mod 16) < length hexDigits" by (simp add: hexDigits_code nat_less_iff)
  then have "hexDigit n \<in> set hexDigits"
    unfolding hexDigit_def by (rule nth_mem)
  then show ?thesis
    by (auto simp: hexDigits_code uriUnescaped_def isAsciiAlpha_def isAsciiDigit_def)
qed

lemma unescaped_escaped: "uriUnescaped c \<Longrightarrow> isEscaped c"
  by (simp add: isEscaped_def)

lemma percentOctets_escaped: "c \<in> set (percentOctets bs) \<Longrightarrow> isEscaped c"
  by (induction bs) (auto simp: percentOctets_def percentOctet_def isEscaped_def hexDigit_unescaped)

lemma encode_escaped:
  "encode uriUnescaped s = Some e \<Longrightarrow> c \<in> set e \<Longrightarrow> isEscaped c"
proof (induction uriUnescaped s arbitrary: e rule: encode.induct)
  case 1
  then show ?case by simp
next
  case (2 c')
  then show ?case
    by (auto simp: unescaped_escaped split: if_splits dest: percentOctets_escaped)
next
  case (3 c' d s)
  then show ?case
    by (auto simp: unescaped_escaped split: if_splits dest: percentOctets_escaped)
qed

lemma isEscaped_not_terminator: "isEscaped c \<Longrightarrow> \<not> isLineTerminator c"
  by (auto simp: isEscaped_def uriUnescaped_def isLineTerminator_def isAsciiAlpha_def
      isAsciiDigit_def uriMark_code cu_def)

lemma unescaped_not_surrogate:
  "uriUnescaped c \<Longrightarrow> \<not> isLeadingSurrogate c \<and> \<not> isTrailingSurrogate c"
  by (auto simp: uriUnescaped_def isLeadingSurrogate_def isTrailingSurrogate_def
      isAsciiAlpha_def isAsciiDigit_def uriMark_code word_le_nat_alt)

lemma encode_wellFormed:
  "isWellFormed s \<Longrightarrow> \<exists>e. encode uriUnescaped s = Some e"
  by (induction uriUnescaped s rule: encode.induct)
     (auto split: if_splits dest: unescaped_not_surrogate)


lemma splitLines_append:
  "noLineTerminator a \<Longrightarrow> splitLines (a @ s) = (a @ hd (splitLines s)) # tl (splitLines s)"
  by (induction a) (auto simp: noLineTerminator_def splitLines_nonempty)

lemma hd_splitLines_dropWhile:
  "hd (splitLines (dropWhile (\<lambda>x. \<not> isLineTerminator x) s)) = []"
  by (induction s) auto

lemma noLineTerminator_takeWhile:
  "noLineTerminator (takeWhile (\<lambda>x. \<not> isLineTerminator x) s)"
  by (auto simp: noLineTerminator_def dest: set_takeWhileD)

lemma isComment_Cons: "isComment (c # s) = (c = cu CHR ''#'')"
  by (auto simp: isComment_def startsWith_def js_def)

declare replace_gm.simps(2) [simp del]

lemma replace_gm_match:
  "c \<noteq> cu CHR ''#'' \<Longrightarrow> \<not> isLineTerminator c \<Longrightarrow>
   replace_gm callback True (c # s) =
     callback (c # takeWhile (\<lambda>x. \<not> isLineTerminator x) s) @
     replace_gm callback False (dropWhile (\<lambda>x. \<not> isLineTerminator x) s)"
  by (simp add: replace_gm.simps(2))

lemma replace_gm_copy:
  "\<not> (atStart \<and> c \<noteq> cu CHR ''#'' \<and> \<not> isLineTerminator c) \<Longrightarrow>
   replace_gm callback atStart (c # s) = c # replace_gm callback (isLineTerminator c) s"
  by (auto simp: replace_gm.simps(2))

lemma splitLines_replace_gm:
  assumes cb: "\<And>l. noLineTerminator l \<Longrightarrow> noLineTerminator (callback l)"
  shows "splitLines (replace_gm callback b s) =
         (if b then onLine callback (hd (splitLines s)) else hd (splitLines s)) #
         map (onLine callback) (tl (splitLines s))"
  using cb
proof (induction callback b s rule: replace_gm.induct)
  case (1 callback atStart)
  show ?case by (simp add: onLine_def)
next
  case (2 callback atStart c s)
  note cb = "2.prems"
  note IH1 = "2.IH"(1) [OF _ "2.prems"]
  note IH2 = "2.IH"(2) [OF _ "2.prems"]
  let ?P = "\<lambda>x. \<not> isLineTerminator x"
  show ?case
  proof (cases "atStart \<and> c \<noteq> cu CHR ''#'' \<and> \<not> isLineTerminator c")
    case True
    let ?m = "c # takeWhile ?P s"
    let ?r = "dropWhile ?P s"
    have r: "dropWhile ?P (c # s) = ?r" using True by simp
    have nm: "noLineTerminator ?m"
      using True noLineTerminator_takeWhile [of s] by (simp add: noLineTerminator_def)
    have "splitLines (?m @ ?r) = (?m @ hd (splitLines ?r)) # tl (splitLines ?r)"
      by (rule splitLines_append [OF nm])
    then have sl: "splitLines (c # s) = ?m # tl (splitLines ?r)"
      by (simp add: hd_splitLines_dropWhile del: splitLines_Cons)
    have ih: "splitLines (replace_gm callback False ?r) =
              [] # map (onLine callback) (tl (splitLines ?r))"
      using IH1 [OF True] by (simp only: r hd_splitLines_dropWhile if_False)
    have "splitLines (replace_gm callback atStart (c # s)) =
          splitLines (callback ?m @ replace_gm callback False ?r)"
      using True by (simp add: replace_gm_match)
    also have "\<dots> = callback ?m # map (onLine callback) (tl (splitLines ?r))"
      by (simp add: splitLines_append [OF cb [OF nm]] ih)
    also have "callback ?m = onLine callback ?m"
      using True by (simp add: onLine_def isComment_Cons)
    finally show ?thesis using True by (simp add: sl del: splitLines_Cons)
  next
    case False
    then have r: "replace_gm callback atStart (c # s) =
                  c # replace_gm callback (isLineTerminator c) s"
      by (rule replace_gm_copy)
    show ?thesis
    proof (cases "isLineTerminator c")
      case True
      then show ?thesis using IH2 [OF False] splitLines_nonempty [of s]
        by (cases "splitLines s") (auto simp: r onLine_def)
    next
      case nt: False
      with False have "\<not> atStart \<or> c = cu CHR ''#''" by auto
      then show ?thesis using nt IH2 [OF False] 
        by (auto simp: r onLine_def isComment_Cons)
    qed
  qed
qed

lemma filter_replace_gm:
  assumes cb: "\<And>l. noLineTerminator l \<Longrightarrow> noLineTerminator (callback l)"
  shows "filter isLineTerminator (replace_gm callback b s) = filter isLineTerminator s"
  using cb
proof (induction callback b s rule: replace_gm.induct)
  case (1 callback atStart)
  show ?case by simp
next
  case (2 callback atStart c s)
  note cb = "2.prems"
  note IH1 = "2.IH"(1) [OF _ "2.prems"]
  note IH2 = "2.IH"(2) [OF _ "2.prems"]
  let ?P = "\<lambda>x. \<not> isLineTerminator x"
  show ?case
  proof (cases "atStart \<and> c \<noteq> cu CHR ''#'' \<and> \<not> isLineTerminator c")
    case True
    let ?m = "c # takeWhile ?P s"
    let ?r = "dropWhile ?P s"
    have r: "dropWhile ?P (c # s) = ?r" using True by simp
    have nm: "noLineTerminator ?m"
      using True noLineTerminator_takeWhile [of s] by (simp add: noLineTerminator_def)
    have 1: "filter isLineTerminator (callback ?m) = []"
      using cb [OF nm] by (auto simp: noLineTerminator_def filter_empty_conv)
    have 2: "filter isLineTerminator (takeWhile ?P s) = []"
      using noLineTerminator_takeWhile [of s]
      by (auto simp: noLineTerminator_def filter_empty_conv)
    have "filter isLineTerminator (takeWhile ?P s @ ?r) =
         filter isLineTerminator (takeWhile ?P s) @ filter isLineTerminator ?r"
      by (rule filter_append)
    then have 3: "filter isLineTerminator s = filter isLineTerminator ?r"
      by (simp add: 2)
    have "filter isLineTerminator (replace_gm callback False ?r) = filter isLineTerminator ?r"
      using IH1 [OF True] by (simp only: r)
    then show ?thesis using True by (simp add: replace_gm_match 1 3)
  next
    case False
    then show ?thesis using IH2 [OF False] by (auto simp: replace_gm_copy)
  qed
qed


lemma dropWhile_all_iff:
  "(\<forall>x \<in> set (dropWhile P s). P x) \<longleftrightarrow> (\<forall>x \<in> set s. P x)"
  by (induction s) auto

lemma trim_Nil_iff: "trim s = [] \<longleftrightarrow> isBlank s"
  by (simp add: trim_def isBlank_def dropWhile_all_iff)

lemma relay_Some:
  "relay target = Some r \<longleftrightarrow>
   (\<exists>e. encodeURIComponent target = Some e \<and> r = js ''/proxy?url='' @ e)"
  by (auto simp: relay_def)

lemma relay_references: "relay target = Some r \<Longrightarrow> referencesRelay r"
  by (auto simp: relay_Some referencesRelay_def startsWith_def encodeURIComponent_def
      list_all_iff dest: encode_escaped)

lemma relay_wellFormed:
  "isWellFormed target \<Longrightarrow>
   \<exists>e. encodeURIComponent target = Some e \<and> relay target = Some (js ''/proxy?url='' @ e)"
  using encode_wellFormed [of target] by (auto simp: relay_def encodeURIComponent_def)

lemma prefix_noLineTerminator: "noLineTerminator (js ''/proxy?url='')"
  by (simp add: noLineTerminator_def js_def cu_def isLineTerminator_def)

lemma noLineTerminator_append:
  "noLineTerminator (a @ b) \<longleftrightarrow> noLineTerminator a \<and> noLineTerminator b"
  by (auto simp: noLineTerminator_def)

lemma referencesRelay_split:
  "referencesRelay r \<Longrightarrow> \<exists>e. r = js ''/proxy?url='' @ e \<and> (\<forall>c \<in> set e. isEscaped c)"
  by (auto simp: referencesRelay_def startsWith_def prefix_def list_all_iff)

lemma referencesRelay_noLineTerminator:
  assumes "referencesRelay r"
  shows "noLineTerminator r"
proof -
  from assms obtain e where r: "r = js ''/proxy?url='' @ e" and e: "\<forall>c \<in> set e. isEscaped c"
    using referencesRelay_split by blast
  from e have "noLineTerminator e"
    by (auto simp: noLineTerminator_def dest: isEscaped_not_terminator)
  then show ?thesis
    by (simp only: r noLineTerminator_append prefix_noLineTerminator simp_thms)
qed

lemma referencesRelay_Cons: "referencesRelay r \<Longrightarrow> \<exists>t. r = cu CHR ''/'' # t"
  by (auto simp: referencesRelay_def startsWith_def prefix_def js_def)

lemma newUrl_references: "newUrl parser baseUrl line = Some r \<Longrightarrow> referencesRelay r"
  by (auto simp: newUrl_def relay_references split: if_splits Option.bind_splits)

lemma decoratorNewUrl_references:
  "decoratorNewUrl parser baseUrl line = Some r \<Longrightarrow> referencesRelay r"
  by (auto simp: decoratorNewUrl_def relay_references split: if_splits Option.bind_splits)

lemma rewriteLine_cases:
  "rewriteLine parser baseUrl line =
     (if isComment line \<or> isBlank line then line
      else case newUrl parser baseUrl line of None \<Rightarrow> line | Some u \<Rightarrow> u)"
  by (simp add: rewriteLine_def isComment_def trim_Nil_iff)

lemma decoratorLine_cases:
  "decoratorLine parser baseUrl line =
     (if isComment line \<or> isBlank line then line
      else case decoratorNewUrl parser baseUrl line of None \<Rightarrow> line | Some u \<Rightarrow> u)"
  by (simp add: decoratorLine_def isComment_def trim_Nil_iff)

lemma rewriteLine_noLineTerminator:
  "noLineTerminator l \<Longrightarrow> noLineTerminator (rewriteLine parser baseUrl l)"
  by (auto simp: rewriteLine_cases split: option.splits
      dest: newUrl_references referencesRelay_noLineTerminator)

lemma decoratorLine_noLineTerminator:
  "noLineTerminator l \<Longrightarrow> noLineTerminator (decoratorLine parser baseUrl l)"
  by (auto simp: decoratorLine_cases split: option.splits
      dest: decoratorNewUrl_references referencesRelay_noLineTerminator)

lemma isBlank_Nil: "isBlank []"
  by (simp add: isBlank_def)

lemma onLine_rewriteLine: "onLine (rewriteLine parser baseUrl) l = rewriteLine parser baseUrl l"
  by (simp add: onLine_def rewriteLine_cases isBlank_Nil)

lemma onLine_decoratorLine:
  "onLine (decoratorLine parser baseUrl) l = decoratorLine parser baseUrl l"
  by (simp add: onLine_def decoratorLine_cases isBlank_Nil)

lemma splitLines_rewritten:
  "splitLines (rewritten parser targetUrl data) =
   map (rewriteLine parser targetUrl) (splitLines data)"
proof -
  have "splitLines (rewritten parser targetUrl data) =
        onLine (rewriteLine parser targetUrl) (hd (splitLines data)) #
        map (onLine (rewriteLine parser targetUrl)) (tl (splitLines data))"
    unfolding rewritten_def
    using splitLines_replace_gm [of "rewriteLine parser targetUrl" True data]
      rewriteLine_noLineTerminator by simp
  then show ?thesis
    using splitLines_nonempty [of data]
    by (cases "splitLines data") (simp_all add: onLine_rewriteLine)
qed

lemma splitLines_playlist:
  "splitLines (playlist parser originalUrl data) =
   map (decoratorLine parser originalUrl) (splitLines data)"
proof -
  have "splitLines (playlist parser originalUrl data) =
        onLine (decoratorLine parser originalUrl) (hd (splitLines data)) #
        map (onLine (decoratorLine parser originalUrl)) (tl (splitLines data))"
    unfolding playlist_def
    using splitLines_replace_gm [of "decoratorLine parser originalUrl" True data]
      decoratorLine_noLineTerminator by simp
  then show ?thesis
    using splitLines_nonempty [of data]
    by (cases "splitLines data") (simp_all add: onLine_decoratorLine)
qed

lemma startsWith_Cons: "startsWith l (js (c # p)) \<Longrightarrow> \<exists>t. l = cu c # t"
  by (auto simp: startsWith_def js_def prefix_def)

lemma slash_not_hash: "cu CHR ''/'' \<noteq> cu CHR ''#''"
  by (simp add: cu_def)

lemma h_not_hash: "cu CHR ''h'' \<noteq> cu CHR ''#''"
  by (simp add: cu_def)

lemma slash_not_h: "cu CHR ''/'' \<noteq> cu CHR ''h''"
  by (simp add: cu_def)

lemma slash_not_trimmed: "\<not> isTrimmed (cu CHR ''/'')"
  by (simp add: isTrimmed_def isWhiteSpace_def isLineTerminator_def cu_def)

lemma h_not_trimmed: "\<not> isTrimmed (cu CHR ''h'')"
  by (simp add: isTrimmed_def isWhiteSpace_def isLineTerminator_def cu_def)

lemma isBlank_Cons: "isBlank (c # t) \<Longrightarrow> isTrimmed c"
  by (simp add: isBlank_def)

lemma isComment_rewriteLine: "isComment (rewriteLine parser baseUrl l) = isComment l"
proof (cases "newUrl parser baseUrl l")
  case None
  then show ?thesis by (simp add: rewriteLine_cases)
next
  case (Some r)
  then obtain t where "r = cu CHR ''/'' # t"
    using newUrl_references referencesRelay_Cons by blast
  then show ?thesis using Some
    by (simp add: rewriteLine_cases isComment_Cons slash_not_hash)
qed

lemma isComment_decoratorLine: "isComment (decoratorLine parser baseUrl l) = isComment l"
proof (cases "decoratorNewUrl parser baseUrl l")
  case None
  then show ?thesis by (simp add: decoratorLine_cases)
next
  case (Some r)
  then obtain t where "r = cu CHR ''/'' # t"
    using decoratorNewUrl_references referencesRelay_Cons by blast
  then show ?thesis using Some
    by (simp add: decoratorLine_cases isComment_Cons slash_not_hash)
qed

lemma referencesRelay_not_blank: "referencesRelay r \<Longrightarrow> \<not> isBlank r"
  using referencesRelay_Cons isBlank_Cons slash_not_trimmed by blast

lemma testAbsolute_Cons: "testAbsolute l \<Longrightarrow> \<exists>t. l = cu CHR ''h'' # t"
  unfolding testAbsolute_def using startsWith_Cons by blast

lemma testAbsolute_line:
  "testAbsolute l \<Longrightarrow> \<not> isComment l \<and> \<not> isBlank l"
  using testAbsolute_Cons [of l] isBlank_Cons h_not_trimmed
  by (auto simp: isComment_Cons h_not_hash)

lemma rootRelative_line:
  assumes "startsWith l (js ''/'')"
  shows "\<not> isComment l \<and> \<not> isBlank l \<and> \<not> testAbsolute l"
proof -
  from assms obtain t where l: "l = cu CHR ''/'' # t"
    using startsWith_Cons by blast
  have "\<not> testAbsolute l"
    using testAbsolute_Cons [of l] l slash_not_h by auto
  then show ?thesis
    using l isBlank_Cons slash_not_trimmed by (auto simp: isComment_Cons slash_not_hash)
qed

lemma nth_rewritten:
  "i < length (splitLines data) \<Longrightarrow>
   splitLines (rewritten parser targetUrl data) ! i =
   rewriteLine parser targetUrl (splitLines data ! i)"
  by (simp add: splitLines_rewritten)

lemma nth_playlist:
  "i < length (splitLines data) \<Longrightarrow>
   splitLines (playlist parser originalUrl data) ! i =
   decoratorLine parser originalUrl (splitLines data ! i)"
  by (simp add: splitLines_playlist)

subsection \<open>The examples, evaluated\<close>

lemma splitLines_example:
  "splitLines examplePlaylist =
     [js ''#EXTM3U'', [], js ''#EXTINF:4,'', js ''https://c.io/s 1.ts'',
      js ''/live/seg1.ts'', js ''seg1.ts'']"
  by code_simp

lemma parse_master: "URL_new whatwg masterUrl None = Some masterRecord"
  by code_simp

lemma toString_master: "toString masterRecord = masterUrl"
  by code_simp

lemma protocol_host_master:
  "protocol masterRecord @ js ''//'' @ host masterRecord = js ''https://h''"
  by code_simp

lemma parse_segment: "whatwg (js ''seg1.ts'') (Some masterRecord) = Some segmentRecord"
  by code_simp

lemma toString_segment: "toString segmentRecord = js ''https://h/a/b/seg1.ts''"
  by code_simp

lemma modelled_examples:
  "isModelled masterUrl None \<and> isModelled (js ''seg1.ts'') (Some masterRecord)"
  by code_simp


section \<open>The claims\<close>

text \<open>
  C1. In the playlist rewrite, every line that matches the absolute URL pattern
  (prefix \<^verbatim>\<open>http://\<close> or \<^verbatim>\<open>https://\<close>) and has a percent-encoding (no unpaired
  surrogate, as in all text decoded from UTF-8) is rewritten to exactly
  \<^verbatim>\<open>/proxy?url=\<close> followed by the percent-encoding of the line. In the
  \<^verbatim>\<open>userResDecorator\<close> script this needs the original URL to parse, which it does
  whenever the decorator is reached.
\<close>

theorem absolute_line_rewritten:
  assumes "i < length (splitLines data)"
    and "testAbsolute (splitLines data ! i)"
    and "isWellFormed (splitLines data ! i)"
  shows "\<exists>e. encodeURIComponent (splitLines data ! i) = Some e \<and>
             splitLines (rewritten parser targetUrl data) ! i = js ''/proxy?url='' @ e \<and>
             (URL_new parser originalUrl None \<noteq> None \<longrightarrow>
              splitLines (playlist parser originalUrl data) ! i = js ''/proxy?url='' @ e)"
proof -
  let ?l = "splitLines data ! i"
  from assms(3) obtain e where e: "encodeURIComponent ?l = Some e"
    and r: "relay ?l = Some (js ''/proxy?url='' @ e)"
    using relay_wellFormed by blast
  have nc: "\<not> isComment ?l \<and> \<not> isBlank ?l"
    using assms(2) by (rule testAbsolute_line)
  have "newUrl parser targetUrl ?l = relay ?l"
    using assms(2) by (simp add: newUrl_def)
  then have A: "rewriteLine parser targetUrl ?l = js ''/proxy?url='' @ e"
    using nc r by (simp add: rewriteLine_cases)
  have B: "decoratorLine parser originalUrl ?l = js ''/proxy?url='' @ e"
    if "URL_new parser originalUrl None \<noteq> None"
  proof -
    from that have "decoratorNewUrl parser originalUrl ?l = relay ?l"
      using assms(2) by (auto simp: decoratorNewUrl_def)
    then show ?thesis using nc r by (simp add: decoratorLine_cases)
  qed
  show ?thesis
    using e A B by (auto simp: nth_rewritten [OF assms(1)] nth_playlist [OF assms(1)])
qed

theorem absolute_line_rewritten_witness:
  "3 < length (splitLines examplePlaylist) \<and>
   testAbsolute (splitLines examplePlaylist ! 3) \<and>
   isWellFormed (splitLines examplePlaylist ! 3) \<and>
   URL_new whatwg masterUrl None \<noteq> None \<and>
   splitLines (rewritten whatwg masterUrl examplePlaylist) ! 3 =
     js ''/proxy?url='' @ js ''https%3A%2F%2Fc.io%2Fs%201.ts'' \<and>
   splitLines (playlist whatwg masterUrl examplePlaylist) ! 3 =
     js ''/proxy?url='' @ js ''https%3A%2F%2Fc.io%2Fs%201.ts''"
proof -
  have l: "splitLines examplePlaylist ! 3 = js ''https://c.io/s 1.ts''"
    by (simp add: splitLines_example)
  have h1: "3 < length (splitLines examplePlaylist)"
    by (simp add: splitLines_example)
  have h2: "testAbsolute (splitLines examplePlaylist ! 3)"
    unfolding l by code_simp
  have h3: "isWellFormed (splitLines examplePlaylist ! 3)"
    unfolding l by code_simp
  have h4: "URL_new whatwg masterUrl None \<noteq> None"
    by (simp add: parse_master)
  have e: "encodeURIComponent (splitLines examplePlaylist ! 3) =
           Some (js ''https%3A%2F%2Fc.io%2Fs%201.ts'')"
    unfolding l by code_simp
  from absolute_line_rewritten [OF h1 h2 h3, of whatwg masterUrl masterUrl] e h4
  show ?thesis using h1 h2 h3 by auto
qed

text \<open>
  C3. Every root-relative line (beginning with \<^verbatim>\<open>/\<close>) is appended to the scheme and
  host of the original URL, as \<^verbatim>\<open>protocol + "//" + host + line\<close>, and replaced by
  \<^verbatim>\<open>/proxy?url=\<close> followed by the percent-encoding of that URL, whenever the
  original URL parses and the resolved URL has a percent-encoding. For
  \<^verbatim>\<open>https://h/a/b/master.m3u8\<close> the scheme and host are \<^verbatim>\<open>https://h\<close>.
\<close>

theorem root_relative_line_rewritten:
  assumes "i < length (splitLines data)"
    and "startsWith (splitLines data ! i) (js ''/'')"
    and "URL_new parser targetUrl None = Some urlObj"
    and "isWellFormed (protocol urlObj @ js ''//'' @ host urlObj @ splitLines data ! i)"
  shows "\<exists>e. encodeURIComponent
                (protocol urlObj @ js ''//'' @ host urlObj @ splitLines data ! i) = Some e \<and>
             splitLines (rewritten parser targetUrl data) ! i = js ''/proxy?url='' @ e \<and>
             splitLines (playlist parser targetUrl data) ! i = js ''/proxy?url='' @ e"
proof -
  let ?l = "splitLines data ! i"
  let ?resolved = "protocol urlObj @ js ''//'' @ host urlObj @ ?l"
  from assms(4) obtain e where e: "encodeURIComponent ?resolved = Some e"
    and r: "relay ?resolved = Some (js ''/proxy?url='' @ e)"
    using relay_wellFormed by blast
  have nc: "\<not> isComment ?l \<and> \<not> isBlank ?l \<and> \<not> testAbsolute ?l"
    using assms(2) by (rule rootRelative_line)
  have "newUrl parser targetUrl ?l = relay ?resolved"
    using nc assms(2,3) by (simp add: newUrl_def)
  then have A: "rewriteLine parser targetUrl ?l = js ''/proxy?url='' @ e"
    using nc r by (simp add: rewriteLine_cases)
  have "decoratorNewUrl parser targetUrl ?l = relay ?resolved"
    using nc assms(2,3) by (simp add: decoratorNewUrl_def)
  then have B: "decoratorLine parser targetUrl ?l = js ''/proxy?url='' @ e"
    using nc r by (simp add: decoratorLine_cases)
  show ?thesis
    using e A B by (auto simp: nth_rewritten [OF assms(1)] nth_playlist [OF assms(1)])
qed

theorem root_relative_line_rewritten_witness:
  "4 < length (splitLines examplePlaylist) \<and>
   startsWith (splitLines examplePlaylist ! 4) (js ''/'') \<and>
   URL_new whatwg masterUrl None = Some masterRecord \<and>
   protocol masterRecord @ js ''//'' @ host masterRecord @ splitLines examplePlaylist ! 4 =
     js ''https://h'' @ js ''/live/seg1.ts'' \<and>
   isWellFormed (js ''https://h'' @ js ''/live/seg1.ts'') \<and>
   splitLines (rewritten whatwg masterUrl examplePlaylist) ! 4 =
     js ''/proxy?url='' @ js ''https%3A%2F%2Fh%2Flive%2Fseg1.ts'' \<and>
   splitLines (playlist whatwg masterUrl examplePlaylist) ! 4 =
     js ''/proxy?url='' @ js ''https%3A%2F%2Fh%2Flive%2Fseg1.ts''"
proof -
  have l: "splitLines examplePlaylist ! 4 = js ''/live/seg1.ts''"
    by (simp add: splitLines_example)
  have h1: "4 < length (splitLines examplePlaylist)"
    by (simp add: splitLines_example)
  have h2: "startsWith (splitLines examplePlaylist ! 4) (js ''/'')"
    unfolding l by code_simp
  have r: "protocol masterRecord @ js ''//'' @ host masterRecord @
           splitLines examplePlaylist ! 4 = js ''https://h'' @ js ''/live/seg1.ts''"
    using protocol_host_master by (simp add: l)
  have w: "isWellFormed (js ''https://h'' @ js ''/live/seg1.ts'')"
    by code_simp
  have h4: "isWellFormed (protocol masterRecord @ js ''//'' @ host masterRecord @
                          splitLines examplePlaylist ! 4)"
    using w by (simp only: r)
  have e: "encodeURIComponent (js ''https://h'' @ js ''/live/seg1.ts'') =
           Some (js ''https%3A%2F%2Fh%2Flive%2Fseg1.ts'')"
    by code_simp
  from root_relative_line_rewritten [OF h1 h2 parse_master h4] e
  have "splitLines (rewritten whatwg masterUrl examplePlaylist) ! 4 =
          js ''/proxy?url='' @ js ''https%3A%2F%2Fh%2Flive%2Fseg1.ts'' \<and>
        splitLines (playlist whatwg masterUrl examplePlaylist) ! 4 =
          js ''/proxy?url='' @ js ''https%3A%2F%2Fh%2Flive%2Fseg1.ts''"
    by (simp only: r) auto
  then show ?thesis using h1 h2 parse_master r w by blast
qed



text \<open>
  C10. The rewrite maps each input line to exactly one output line: the lines of the
  output are the images of the lines of the input, in the same number and order; the
  line terminators are the same; and a line of the output is a directive exactly when
  the line of the input at its place is one. A rewritten line holds no line
  terminator, as the percent-encoding escapes them all.
\<close>

theorem rewrite_keeps_lines:
  "splitLines (rewritten parser targetUrl data) =
     map (rewriteLine parser targetUrl) (splitLines data) \<and>
   length (splitLines (rewritten parser targetUrl data)) = length (splitLines data) \<and>
   filter isLineTerminator (rewritten parser targetUrl data) = filter isLineTerminator data \<and>
   map isComment (splitLines (rewritten parser targetUrl data)) =
     map isComment (splitLines data) \<and>
   splitLines (playlist parser originalUrl data) =
     map (decoratorLine parser originalUrl) (splitLines data) \<and>
   length (splitLines (playlist parser originalUrl data)) = length (splitLines data) \<and>
   filter isLineTerminator (playlist parser originalUrl data) = filter isLineTerminator data \<and>
   map isComment (splitLines (playlist parser originalUrl data)) =
     map isComment (splitLines data)"
proof -
  have "filter isLineTerminator (rewritten parser targetUrl data) =
        filter isLineTerminator data"
    unfolding rewritten_def
    by (rule filter_replace_gm) (rule rewriteLine_noLineTerminator)
  moreover have "filter isLineTerminator (playlist parser originalUrl data) =
        filter isLineTerminator data"
    unfolding playlist_def
    by (rule filter_replace_gm) (rule decoratorLine_noLineTerminator)
  ultimately show ?thesis
    by (simp add: splitLines_rewritten splitLines_playlist isComment_rewriteLine
        isComment_decoratorLine comp_def)
qed

theorem rewrite_keeps_lines_witness:
  "length (splitLines (rewritten whatwg masterUrl examplePlaylist)) = 6 \<and>
   filter isLineTerminator (rewritten whatwg masterUrl examplePlaylist) =
     [0x0D, 0x0A, 0x0A, 0x0A, 0x0A] \<and>
   map isComment (splitLines (playlist whatwg masterUrl examplePlaylist)) =
     [True, False, True, False, False, False]"
proof -
  have 1: "length (splitLines examplePlaylist) = 6"
    by (simp add: splitLines_example)
  have 2: "filter isLineTerminator examplePlaylist = [0x0D, 0x0A, 0x0A, 0x0A, 0x0A]"
    by code_simp
  have 3: "map isComment (splitLines examplePlaylist) =
           [True, False, True, False, False, False]"
    unfolding splitLines_example by code_simp
  note t = rewrite_keeps_lines [of whatwg masterUrl examplePlaylist masterUrl]
  from t have a: "length (splitLines (rewritten whatwg masterUrl examplePlaylist)) =
                  length (splitLines examplePlaylist)"
    by blast
  from t have b: "filter isLineTerminator (rewritten whatwg masterUrl examplePlaylist) =
                  filter isLineTerminator examplePlaylist"
    by blast
  from t have c: "map isComment (splitLines (playlist whatwg masterUrl examplePlaylist)) =
                  map isComment (splitLines examplePlaylist)"
    by blast
  show ?thesis by (simp only: a b c 1 2 3)
qed

text \<open>
  C2. Every purely relative line (not a directive, not blank, not matching the
  absolute URL pattern, not beginning with \<^verbatim>\<open>/\<close>) is resolved against the original
  URL by \<^verbatim>\<open>new URL(line, base)\<close> and replaced by \<^verbatim>\<open>/proxy?url=\<close> followed by the
  percent-encoding of the resolved URL, whenever both URLs parse and the resolved URL
  has a percent-encoding. Resolution replaces the last segment of the base path: for
  \<^verbatim>\<open>https://h/a/b/master.m3u8\<close> the line \<^verbatim>\<open>seg1.ts\<close> resolves to
  \<^verbatim>\<open>https://h/a/b/seg1.ts\<close>.
\<close>

theorem relative_line_rewritten:
  assumes "i < length (splitLines data)"
    and "\<not> isComment (splitLines data ! i)"
    and "\<not> isBlank (splitLines data ! i)"
    and "\<not> testAbsolute (splitLines data ! i)"
    and "\<not> startsWith (splitLines data ! i) (js ''/'')"
    and "URL_new parser targetUrl None = Some urlObj"
    and "URL_new parser (splitLines data ! i) (Some (toString urlObj)) = Some resolved"
    and "isWellFormed (toString resolved)"
  shows "\<exists>e. encodeURIComponent (toString resolved) = Some e \<and>
             splitLines (rewritten parser targetUrl data) ! i = js ''/proxy?url='' @ e \<and>
             splitLines (playlist parser targetUrl data) ! i = js ''/proxy?url='' @ e"
proof -
  let ?l = "splitLines data ! i"
  from assms(8) obtain e where e: "encodeURIComponent (toString resolved) = Some e"
    and r: "relay (toString resolved) = Some (js ''/proxy?url='' @ e)"
    using relay_wellFormed by blast
  have "newUrl parser targetUrl ?l = relay (toString resolved)"
    using assms(4-7) by (simp add: newUrl_def)
  then have A: "rewriteLine parser targetUrl ?l = js ''/proxy?url='' @ e"
    using assms(2,3) r by (simp add: rewriteLine_cases)
  have "decoratorNewUrl parser targetUrl ?l = relay (toString resolved)"
    using assms(4-7) by (simp add: decoratorNewUrl_def)
  then have B: "decoratorLine parser targetUrl ?l = js ''/proxy?url='' @ e"
    using assms(2,3) r by (simp add: decoratorLine_cases)
  show ?thesis
    using e A B by (auto simp: nth_rewritten [OF assms(1)] nth_playlist [OF assms(1)])
qed

theorem relative_line_rewritten_witness:
  "5 < length (splitLines examplePlaylist) \<and>
   splitLines examplePlaylist ! 5 = js ''seg1.ts'' \<and>
   \<not> isComment (js ''seg1.ts'') \<and> \<not> isBlank (js ''seg1.ts'') \<and>
   \<not> testAbsolute (js ''seg1.ts'') \<and> \<not> startsWith (js ''seg1.ts'') (js ''/'') \<and>
   URL_new whatwg masterUrl None = Some masterRecord \<and>
   URL_new whatwg (js ''seg1.ts'') (Some (toString masterRecord)) = Some segmentRecord \<and>
   toString segmentRecord = js ''https://h/a/b/seg1.ts'' \<and>
   isWellFormed (js ''https://h/a/b/seg1.ts'') \<and>
   splitLines (rewritten whatwg masterUrl examplePlaylist) ! 5 =
     js ''/proxy?url='' @ js ''https%3A%2F%2Fh%2Fa%2Fb%2Fseg1.ts'' \<and>
   splitLines (playlist whatwg masterUrl examplePlaylist) ! 5 =
     js ''/proxy?url='' @ js ''https%3A%2F%2Fh%2Fa%2Fb%2Fseg1.ts''"
proof -
  have l: "splitLines examplePlaylist ! 5 = js ''seg1.ts''"
    by (simp add: splitLines_example)
  have h1: "5 < length (splitLines examplePlaylist)"
    by (simp add: splitLines_example)
  have k: "\<not> isComment (js ''seg1.ts'') \<and> \<not> isBlank (js ''seg1.ts'') \<and>
           \<not> testAbsolute (js ''seg1.ts'') \<and> \<not> startsWith (js ''seg1.ts'') (js ''/'')"
    by code_simp
  have h7: "URL_new whatwg (js ''seg1.ts'') (Some (toString masterRecord)) =
            Some segmentRecord"
    by (simp add: URL_new_def toString_master parse_master [unfolded URL_new_def, simplified]
        parse_segment)
  have w: "isWellFormed (js ''https://h/a/b/seg1.ts'')" by code_simp
  have e: "encodeURIComponent (js ''https://h/a/b/seg1.ts'') =
           Some (js ''https%3A%2F%2Fh%2Fa%2Fb%2Fseg1.ts'')"
    by code_simp
  have "\<exists>e. encodeURIComponent (toString segmentRecord) = Some e \<and>
          splitLines (rewritten whatwg masterUrl examplePlaylist) ! 5 = js ''/proxy?url='' @ e \<and>
          splitLines (playlist whatwg masterUrl examplePlaylist) ! 5 = js ''/proxy?url='' @ e"
    using k w
    by (intro relative_line_rewritten [OF h1 _ _ _ _ parse_master])
       (simp_all add: l h7 toString_segment)
  then show ?thesis
    using h1 l k parse_master h7 w e by (auto simp: toString_segment)
qed

theorem relative_line_spec_example_counterexample:
  "encodeURIComponent (js ''https://h/a/seg1.ts'') =
     Some (js ''https%3A%2F%2Fh%2Fa%2Fseg1.ts'') \<and>
   rewritten whatwg masterUrl (js ''seg1.ts'') \<noteq>
     js ''/proxy?url='' @ js ''https%3A%2F%2Fh%2Fa%2Fseg1.ts'' \<and>
   playlist whatwg masterUrl (js ''seg1.ts'') \<noteq>
     js ''/proxy?url='' @ js ''https%3A%2F%2Fh%2Fa%2Fseg1.ts'' \<and>
   rewritten whatwg masterUrl (js ''seg1.ts'') =
     js ''/proxy?url=https%3A%2F%2Fh%2Fa%2Fb%2Fseg1.ts'' \<and>
   playlist whatwg masterUrl (js ''seg1.ts'') =
     js ''/proxy?url=https%3A%2F%2Fh%2Fa%2Fb%2Fseg1.ts''"
proof -
  have a: "rewritten whatwg masterUrl (js ''seg1.ts'') =
           js ''/proxy?url=https%3A%2F%2Fh%2Fa%2Fb%2Fseg1.ts''"
    by code_simp
  have b: "playlist whatwg masterUrl (js ''seg1.ts'') =
           js ''/proxy?url=https%3A%2F%2Fh%2Fa%2Fb%2Fseg1.ts''"
    by code_simp
  have c: "encodeURIComponent (js ''https://h/a/seg1.ts'') =
           Some (js ''https%3A%2F%2Fh%2Fa%2Fseg1.ts'')"
    by code_simp
  have d: "js ''/proxy?url=https%3A%2F%2Fh%2Fa%2Fb%2Fseg1.ts'' \<noteq>
           js ''/proxy?url='' @ js ''https%3A%2F%2Fh%2Fa%2Fseg1.ts''"
    by code_simp
  show ?thesis using c d by (simp only: a b) simp
qed

text \<open>
  C4. Every line of the output that is neither a directive nor blank either references
  the relay endpoint, being \<^verbatim>\<open>/proxy?url=\<close> followed by unreserved characters and
  \<^verbatim>\<open>%XX\<close> escapes only, or is the line of the input left as it was because its
  resolution or its encoding threw.
\<close>

theorem output_line_relay_or_unchanged:
  assumes "i < length (splitLines data)"
  shows "(\<not> isComment (splitLines (rewritten parser targetUrl data) ! i) \<and>
          \<not> isBlank (splitLines (rewritten parser targetUrl data) ! i) \<longrightarrow>
          referencesRelay (splitLines (rewritten parser targetUrl data) ! i) \<or>
          (splitLines (rewritten parser targetUrl data) ! i = splitLines data ! i \<and>
           newUrl parser targetUrl (splitLines data ! i) = None)) \<and>
         (\<not> isComment (splitLines (playlist parser originalUrl data) ! i) \<and>
          \<not> isBlank (splitLines (playlist parser originalUrl data) ! i) \<longrightarrow>
          referencesRelay (splitLines (playlist parser originalUrl data) ! i) \<or>
          (splitLines (playlist parser originalUrl data) ! i = splitLines data ! i \<and>
           decoratorNewUrl parser originalUrl (splitLines data ! i) = None))"
  by (auto simp: nth_rewritten [OF assms] nth_playlist [OF assms] rewriteLine_cases
      decoratorLine_cases split: option.splits
      dest: newUrl_references decoratorNewUrl_references)

theorem output_line_relay_or_unchanged_witness:
  "3 < length (splitLines examplePlaylist) \<and>
   \<not> isComment (splitLines (rewritten whatwg masterUrl examplePlaylist) ! 3) \<and>
   \<not> isBlank (splitLines (rewritten whatwg masterUrl examplePlaylist) ! 3) \<and>
   \<not> isComment (splitLines (playlist whatwg masterUrl examplePlaylist) ! 3) \<and>
   \<not> isBlank (splitLines (playlist whatwg masterUrl examplePlaylist) ! 3) \<and>
   newUrl whatwg masterUrl (splitLines examplePlaylist ! 3) \<noteq> None \<and>
   decoratorNewUrl whatwg masterUrl (splitLines examplePlaylist ! 3) \<noteq> None \<and>
   referencesRelay (splitLines (rewritten whatwg masterUrl examplePlaylist) ! 3) \<and>
   referencesRelay (splitLines (playlist whatwg masterUrl examplePlaylist) ! 3)"
proof -
  have l: "splitLines examplePlaylist ! 3 = js ''https://c.io/s 1.ts''"
    by (simp add: splitLines_example)
  have h1: "3 < length (splitLines examplePlaylist)"
    by (simp add: splitLines_example)
  have a: "rewriteLine whatwg masterUrl (js ''https://c.io/s 1.ts'') =
           js ''/proxy?url=https%3A%2F%2Fc.io%2Fs%201.ts''"
    by code_simp
  have b: "decoratorLine whatwg masterUrl (js ''https://c.io/s 1.ts'') =
           js ''/proxy?url=https%3A%2F%2Fc.io%2Fs%201.ts''"
    by code_simp
  have c: "\<not> isComment (js ''/proxy?url=https%3A%2F%2Fc.io%2Fs%201.ts'') \<and>
           \<not> isBlank (js ''/proxy?url=https%3A%2F%2Fc.io%2Fs%201.ts'')"
    by code_simp
  have d: "newUrl whatwg masterUrl (js ''https://c.io/s 1.ts'') \<noteq> None \<and>
           decoratorNewUrl whatwg masterUrl (js ''https://c.io/s 1.ts'') \<noteq> None"
    by code_simp
  have oa: "splitLines (rewritten whatwg masterUrl examplePlaylist) ! 3 =
            js ''/proxy?url=https%3A%2F%2Fc.io%2Fs%201.ts''"
    by (simp only: nth_rewritten [OF h1] l a)
  have ob: "splitLines (playlist whatwg masterUrl examplePlaylist) ! 3 =
            js ''/proxy?url=https%3A%2F%2Fc.io%2Fs%201.ts''"
    by (simp only: nth_playlist [OF h1] l b)
  from output_line_relay_or_unchanged [OF h1, of whatwg masterUrl masterUrl]
  show ?thesis using h1 c d by (simp add: oa ob l)
qed

theorem output_line_unresolved_counterexample:
  "splitLines (rewritten whatwg masterUrl (js ''HTTP://'')) = [js ''HTTP://''] \<and>
   splitLines (playlist whatwg masterUrl (js ''HTTP://'')) = [js ''HTTP://''] \<and>
   \<not> isComment (js ''HTTP://'') \<and> \<not> isBlank (js ''HTTP://'') \<and>
   \<not> startsWith (js ''HTTP://'') (js ''/proxy?url='') \<and>
   \<not> referencesRelay (js ''HTTP://'') \<and>
   basicURLParser (js ''HTTP://'') (Some masterRecord) = Inl Failure"
  by code_simp

text \<open>
  C5. In the scripts that rewrite, the response is buffered and rewritten, with the
  content type forced to \<^verbatim>\<open>application/vnd.apple.mpegurl\<close>, if and only if the
  \<^verbatim>\<open>url\<close> parameter itself, as a string, ends in \<^verbatim>\<open>.m3u8\<close>; otherwise the status,
  the headers and the body go through as they came. In src/proxy.js every body is
  piped.
\<close>

theorem rewrite_iff_url_ends_with_m3u8:
  "((\<exists>text. res_body (onResponse parser decode targetUrl proxyRes) = Ended text) \<longleftrightarrow>
      endsWith targetUrl (js ''.m3u8'')) \<and>
   (endsWith targetUrl (js ''.m3u8'') \<longrightarrow>
      res_body (onResponse parser decode targetUrl proxyRes) =
        Ended (rewritten parser targetUrl (concat (map decode (chunks proxyRes)))) \<and>
      map_of (res_headers (onResponse parser decode targetUrl proxyRes)) ''content-type'' =
        Some (js ''application/vnd.apple.mpegurl'')) \<and>
   (\<not> endsWith targetUrl (js ''.m3u8'') \<longrightarrow>
      onResponse parser decode targetUrl proxyRes = onResponsePlain proxyRes) \<and>
   res_status (onResponse parser decode targetUrl proxyRes) = statusCode proxyRes \<and>
   onResponsePlain proxyRes =
     \<lparr>res_status = statusCode proxyRes, res_headers = headers proxyRes,
      res_body = Piped (chunks proxyRes)\<rparr> \<and>
   (endsWith targetUrl (js ''.m3u8'') \<and> targetUrl \<noteq> [] \<longrightarrow>
      userResDecorator parser decode (Some targetUrl) proxyResData =
        (Some (js ''application/vnd.apple.mpegurl''),
         Playlist (playlist parser targetUrl (decode proxyResData)))) \<and>
   (\<not> endsWith targetUrl (js ''.m3u8'') \<longrightarrow>
      userResDecorator parser decode (Some targetUrl) proxyResData =
        (None, Data proxyResData))"
  by (simp add: onResponse_def onResponsePlain_def userResDecorator_def update_conv')

theorem rewrite_iff_url_ends_with_m3u8_witness:
  "endsWith masterUrl (js ''.m3u8'') \<and> masterUrl \<noteq> [] \<and>
   res_body (onResponse whatwg latin1 masterUrl
       \<lparr>statusCode = 200, headers = [], chunks = [[0x73, 0x65], [0x67]]\<rparr>) =
     Ended (rewritten whatwg masterUrl
       (concat (map latin1 (chunks
          \<lparr>statusCode = 200, headers = [], chunks = [[0x73, 0x65], [0x67]]\<rparr>)))) \<and>
   \<not> endsWith (js ''https://h/a/seg1.ts'') (js ''.m3u8'') \<and>
   onResponse whatwg latin1 (js ''https://h/a/seg1.ts'')
       \<lparr>statusCode = 200, headers = [], chunks = [[0x73, 0x65], [0x67]]\<rparr> =
     onResponsePlain \<lparr>statusCode = 200, headers = [], chunks = [[0x73, 0x65], [0x67]]\<rparr>"
proof -
  have h1: "endsWith masterUrl (js ''.m3u8'') \<and> masterUrl \<noteq> []" by code_simp
  have h2: "\<not> endsWith (js ''https://h/a/seg1.ts'') (js ''.m3u8'')" by code_simp
  show ?thesis
    using h1 h2
      rewrite_iff_url_ends_with_m3u8 [of whatwg latin1 masterUrl
        "\<lparr>statusCode = 200, headers = [], chunks = [[0x73, 0x65], [0x67]]\<rparr>"]
      rewrite_iff_url_ends_with_m3u8 [of whatwg latin1 "js ''https://h/a/seg1.ts''"
        "\<lparr>statusCode = 200, headers = [], chunks = [[0x73, 0x65], [0x67]]\<rparr>"]
    by blast
qed

theorem path_ends_with_m3u8_counterexample:
  "map_option pathname (URL_new whatwg (js ''https://h/a.m3u8?x=1'') None) =
     Some (js ''/a.m3u8'') \<and>
   endsWith (js ''/a.m3u8'') (js ''.m3u8'') \<and>
   res_body (onResponse whatwg latin1 (js ''https://h/a.m3u8?x=1'')
       \<lparr>statusCode = 200, headers = [], chunks = [[0x73, 0x65], [0x67]]\<rparr>) =
     Piped [[0x73, 0x65], [0x67]] \<and>
   map_option pathname (URL_new whatwg (js ''https://h/s?f=.m3u8'') None) =
     Some (js ''/s'') \<and>
   \<not> endsWith (js ''/s'') (js ''.m3u8'') \<and>
   res_body (onResponse whatwg latin1 (js ''https://h/s?f=.m3u8'')
       \<lparr>statusCode = 200, headers = [], chunks = [[0x73, 0x65], [0x67]]\<rparr>) =
     Ended (js ''/proxy?url=https%3A%2F%2Fh%2Fseg'')"
  by code_simp

text \<open>
  C6. A \<^verbatim>\<open>/proxy\<close> request whose \<^verbatim>\<open>url\<close> parameter is present and not empty but does
  not parse as an absolute URL is answered with status 500 and nothing is sent
  upstream, in every script: with the text \<^verbatim>\<open>Proxy setup failed\<close> by the \<^verbatim>\<open>catch\<close> of
  the handler in src/proxy.js and in the first script of part_000, and with the text
  \<^verbatim>\<open>Stream proxy failed\<close> by \<^verbatim>\<open>proxyErrorHandler\<close> in the two scripts built on
  \<^verbatim>\<open>express-http-proxy\<close>, whose host function has fallen back to
  \<^verbatim>\<open>https://tvpass.org\<close> before \<^verbatim>\<open>proxyReqPathResolver\<close> throws.
\<close>

theorem invalid_url_answers_500:
  assumes "query_url req = Some targetUrl"
    and "targetUrl \<noteq> []"
    and "URL_new parser targetUrl None = None"
  shows "proxy parser req = Send 500 (js ''Proxy setup failed'') \<and>
         proxyUse parser req hs = Answered 500 (js ''Stream proxy failed'') \<and>
         proxyUsePlain parser req hs = Answered 500 (js ''Stream proxy failed'') \<and>
         proxyHost parser targetUrl = js ''https://tvpass.org'' \<and>
         proxyReqPathResolver parser targetUrl = None"
  using assms
  by (simp add: proxy_def proxyUse_def proxyUsePlain_def proxyReqOptDecorator_def
      proxyErrorHandler_def proxyHost_def proxyReqPathResolver_def)

theorem invalid_url_answers_500_witness:
  "query_url \<lparr>query_url = Some (js ''not a url''), headers_cookie = None\<rparr> =
     Some (js ''not a url'') \<and>
   js ''not a url'' \<noteq> [] \<and>
   URL_new whatwg (js ''not a url'') None = None \<and>
   proxy whatwg \<lparr>query_url = Some (js ''not a url''), headers_cookie = None\<rparr> =
     Send 500 (js ''Proxy setup failed'') \<and>
   proxyUse whatwg \<lparr>query_url = Some (js ''not a url''), headers_cookie = None\<rparr> [] =
     Answered 500 (js ''Stream proxy failed'') \<and>
   proxyUsePlain whatwg \<lparr>query_url = Some (js ''not a url''), headers_cookie = None\<rparr> [] =
     Answered 500 (js ''Stream proxy failed'') \<and>
   proxyHost whatwg (js ''not a url'') = js ''https://tvpass.org'' \<and>
   proxyReqPathResolver whatwg (js ''not a url'') = None"
proof -
  have h1: "query_url \<lparr>query_url = Some (js ''not a url''), headers_cookie = None\<rparr> =
            Some (js ''not a url'')"
    by simp
  have h2: "js ''not a url'' \<noteq> []" by (simp add: js_def)
  have h3: "URL_new whatwg (js ''not a url'') None = None" by code_simp
  from invalid_url_answers_500 [OF h1 h2 h3, of "[]"] show ?thesis using h1 h2 h3 by blast
qed

theorem invalid_url_not_400_counterexample:
  "basicURLParser (js ''not a url'') None = Inl Failure \<and>
   proxy whatwg \<lparr>query_url = Some (js ''not a url''), headers_cookie = None\<rparr> =
     Send 500 (js ''Proxy setup failed'') \<and>
   proxyUse whatwg \<lparr>query_url = Some (js ''not a url''), headers_cookie = None\<rparr> [] =
     Answered 500 (js ''Stream proxy failed'') \<and>
   proxyUsePlain whatwg \<lparr>query_url = Some (js ''not a url''), headers_cookie = None\<rparr> [] =
     Answered 500 (js ''Stream proxy failed'') \<and>
   (500 :: nat) \<noteq> 400"
  by code_simp

text \<open>
  C7. The request that \<^verbatim>\<open>/proxy\<close> sends upstream carries the \<^verbatim>\<open>Referer\<close>
  \<^verbatim>\<open>https://www.shahid.net/\<close> and the \<^verbatim>\<open>Origin\<close> \<^verbatim>\<open>https://www.shahid.net\<close> if and
  only if the \<^verbatim>\<open>url\<close> parameter, as a string, contains \<^verbatim>\<open>edgenextcdn.net\<close>
  somewhere; otherwise it carries neither header.
\<close>

theorem antibot_headers_iff_url_includes:
  assumes "proxy parser req = Get client targetUrl hs"
  shows "query_url req = Some targetUrl \<and>
         (includes_str targetUrl (js ''edgenextcdn.net'') \<longrightarrow>
            map_of hs ''Referer'' = Some (js ''https://www.shahid.net/'') \<and>
            map_of hs ''Origin'' = Some (js ''https://www.shahid.net'')) \<and>
         (\<not> includes_str targetUrl (js ''edgenextcdn.net'') \<longrightarrow>
            map_of hs ''Referer'' = None \<and> map_of hs ''Origin'' = None)"
  using assms
  by (auto simp: proxy_def Let_def update_conv' split: option.splits if_splits)

theorem antibot_headers_iff_url_includes_witness:
  "proxy whatwg \<lparr>query_url = Some (js ''http://a.edgenextcdn.net/x''), headers_cookie = None\<rparr> =
     Get Http (js ''http://a.edgenextcdn.net/x'')
       [(''Host'', js ''a.edgenextcdn.net''), (''User-Agent'', userAgent),
        (''Accept'', js ''*/*''), (''Connection'', js ''keep-alive''),
        (''Referer'', js ''https://www.shahid.net/''),
        (''Origin'', js ''https://www.shahid.net'')] \<and>
   includes_str (js ''http://a.edgenextcdn.net/x'') (js ''edgenextcdn.net'') \<and>
   map_of [(''Host'', js ''a.edgenextcdn.net''), (''User-Agent'', userAgent),
        (''Accept'', js ''*/*''), (''Connection'', js ''keep-alive''),
        (''Referer'', js ''https://www.shahid.net/''),
        (''Origin'', js ''https://www.shahid.net'')] ''Referer'' =
     Some (js ''https://www.shahid.net/'')"
proof -
  have h: "proxy whatwg
             \<lparr>query_url = Some (js ''http://a.edgenextcdn.net/x''), headers_cookie = None\<rparr> =
           Get Http (js ''http://a.edgenextcdn.net/x'')
             [(''Host'', js ''a.edgenextcdn.net''), (''User-Agent'', userAgent),
              (''Accept'', js ''*/*''), (''Connection'', js ''keep-alive''),
              (''Referer'', js ''https://www.shahid.net/''),
              (''Origin'', js ''https://www.shahid.net'')]"
    by code_simp
  have i: "includes_str (js ''http://a.edgenextcdn.net/x'') (js ''edgenextcdn.net'')"
    by code_simp
  from antibot_headers_iff_url_includes [OF h] i show ?thesis using h by blast
qed

theorem antibot_headers_host_counterexample:
  "map_option host (URL_new whatwg (js ''https://example.com/edgenextcdn.net'') None) =
     Some (js ''example.com'') \<and>
   \<not> includes_str (js ''example.com'') (js ''edgenextcdn.net'') \<and>
   (case proxy whatwg
           \<lparr>query_url = Some (js ''https://example.com/edgenextcdn.net''),
            headers_cookie = None\<rparr> of
      Get client targetUrl hs \<Rightarrow>
        map_of hs ''Referer'' = Some (js ''https://www.shahid.net/'') \<and>
        map_of hs ''Origin'' = Some (js ''https://www.shahid.net'')
    | Send code text \<Rightarrow> False) \<and>
   map_option host (URL_new whatwg (js ''https://EDGENEXTCDN.NET/x'') None) =
     Some (js ''edgenextcdn.net'') \<and>
   (case proxy whatwg
           \<lparr>query_url = Some (js ''https://EDGENEXTCDN.NET/x''), headers_cookie = None\<rparr> of
      Get client targetUrl hs \<Rightarrow>
        map_of hs ''Referer'' = None \<and> map_of hs ''Origin'' = None
    | Send code text \<Rightarrow> False)"
  by code_simp

text \<open>
  C9. A \<^verbatim>\<open>/epg\<close> request with a channel identifier that is not empty and the format
  \<^verbatim>\<open>json\<close>, for a document in which no programme's channel is the identifier, should
  be answered with status 200 and the JSON object of that channel with no programmes.
  The handler does so when the \<^verbatim>\<open>tv\<close> root is an object, also one without any
  \<^verbatim>\<open>programme\<close>, where \<^verbatim>\<open>|| []\<close> steps in; but for the empty root \<^verbatim>\<open><tv></tv>\<close>,
  which has no programme either, \<^verbatim>\<open>parsed.tv\<close> is the empty string and the test
  \<^verbatim>\<open>!parsed.tv\<close> answers 500 with \<^verbatim>\<open>Invalid EPG format\<close>.
\<close>

theorem epg_empty_root_answers_500:
  assumes "channelFilter \<noteq> []"
  shows "epg entry (Some channelFilter) (Some (js ''json'')) (Parsed EmptyTv) =
           \<lparr>epg_status = 500, epg_contentType = None,
            epg_body = Text (js ''Invalid EPG format'')\<rparr> \<and>
         epg entry (Some channelFilter) (Some (js ''json'')) (Parsed (Tv None)) =
           \<lparr>epg_status = 200, epg_contentType = Some (js ''application/json''),
            epg_body = JsonBody \<lparr>json_channel = channelFilter, json_programmes = []\<rparr>\<rparr> \<and>
         ((\<forall>p \<in> set programmes. \<forall>vs. channel p \<noteq> Some (Str channelFilter # vs)) \<longrightarrow>
          epg entry (Some channelFilter) (Some (js ''json''))
              (Parsed (Tv (Some programmes))) =
            \<lparr>epg_status = 200, epg_contentType = Some (js ''application/json''),
             epg_body = JsonBody \<lparr>json_channel = channelFilter, json_programmes = []\<rparr>\<rparr>)"
proof -
  have j: "js ''json'' \<noteq> []" by (simp add: js_def)
  have "filter (matchesChannel channelFilter) programmes = []"
    if "\<forall>p \<in> set programmes. \<forall>vs. channel p \<noteq> Some (Str channelFilter # vs)"
    using that
    by (auto simp: filter_empty_conv matchesChannel_def
        split: option.splits list.splits jsval.splits)
  then show ?thesis
    using assms j by (simp add: epg_def Let_def sendText_def)
qed

theorem epg_empty_root_answers_500_witness:
  "js ''X'' \<noteq> [] \<and>
   epg programmeJson (Some (js ''X'')) (Some (js ''json'')) (Parsed EmptyTv) =
     \<lparr>epg_status = 500, epg_contentType = None,
      epg_body = Text (js ''Invalid EPG format'')\<rparr> \<and>
   epg programmeJson (Some (js ''X'')) (Some (js ''json'')) (Parsed (Tv None)) =
     \<lparr>epg_status = 200, epg_contentType = Some (js ''application/json''),
      epg_body = JsonBody \<lparr>json_channel = js ''X'', json_programmes = []\<rparr>\<rparr> \<and>
   channel \<lparr>channel = Some [Str (js ''Y'')], start = Some [Str (js ''1'')],
            stop = Some [Str (js ''2'')], title = None, sub_title = None, desc = None\<rparr> =
     Some [Str (js ''Y'')] \<and>
   js ''Y'' \<noteq> js ''X'' \<and>
   epg programmeJson (Some (js ''X'')) (Some (js ''json''))
     (Parsed (Tv (Some [\<lparr>channel = Some [Str (js ''Y'')], start = Some [Str (js ''1'')],
                         stop = Some [Str (js ''2'')], title = None, sub_title = None,
                         desc = None\<rparr>]))) =
     \<lparr>epg_status = 200, epg_contentType = Some (js ''application/json''),
      epg_body = JsonBody \<lparr>json_channel = js ''X'', json_programmes = []\<rparr>\<rparr>"
proof -
  have h1: "js ''X'' \<noteq> []" by (simp add: js_def)
  have n: "js ''Y'' \<noteq> js ''X''" by code_simp
  then have h2: "\<forall>p \<in> set [\<lparr>channel = Some [Str (js ''Y'')], start = Some [Str (js ''1'')],
                             stop = Some [Str (js ''2'')], title = None, sub_title = None,
                             desc = None\<rparr>].
                   \<forall>vs. channel p \<noteq> Some (Str (js ''X'') # vs)"
    by simp
  from epg_empty_root_answers_500 [OF h1, of programmeJson] h2
  show ?thesis using h1 n by simp
qed

end
